theory Spec2Isabelle
  imports Main "HOL-Library.Sublist"
begin

section \<open>Data model of \<open>RemoteConnection.js\<close>\<close>

text \<open>
  Objects are referred to by reference: a \<open>ServerConnection\<close> (the server session) and a
  \<open>RemoteConnection\<close> are addresses, and the fields of a \<open>RemoteConnection\<close> live in a
  heap. JavaScript's \<open>null\<close> and \<open>undefined\<close> of a nullable result are \<open>None\<close>. A
  string is the list of its code units, so that \<open>String.startsWith\<close> is \<open>prefix\<close>.
\<close>

type_synonym session_ref = nat
type_synonym conn_ref = nat

text \<open>A thrown value: the fields of an error object that the code reads or writes.\<close>

record js_error =
  name :: string
  code :: "string option"
  sshHandshakeErrorType :: "string option"

text \<open>
  \<open>RemoteConnectionConfiguration\<close>. The optional fields \<open>family\<close>, the certificates, the
  key and \<open>version\<close> are only handed on to \<open>ServerConnection.getOrCreate\<close> and are left
  out; \<open>promptReconnectOnFailure\<close> is optional and read.
\<close>

record RemoteConnectionConfiguration =
  host :: string
  port :: nat
  cwd :: string
  displayTitle :: string
  promptReconnectOnFailure :: "bool option"

text \<open>\<open>HgRepositoryDescription\<close> is opaque to this file.\<close>

type_synonym HgRepositoryDescription = string

text \<open>The fields the constructor of \<open>RemoteConnection\<close> sets (\<open>_cwd\<close>, \<open>_connection\<close>, ...).\<close>

record RemoteConnection =
  rc_cwd :: string
  rc_hgRepositoryDescription :: "HgRepositoryDescription option"
  rc_connection :: session_ref
  rc_displayTitle :: string
  rc_alwaysShutdownIfLast :: bool
  rc_promptReconnectOnFailure :: bool

text \<open>
  The parsed project descriptor: its \<open>paths\<close> property is missing or null, present but
  not an array, or an array of path strings.
\<close>

datatype paths_value = PathsNull | PathsNotArray | PathsArray "string list"

record project_contents =
  paths :: paths_value
  originPath :: "string option"

datatype level = Info | Warn | Error

text \<open>
  The journal: every call the code makes on a collaborator, in program order. It is what
  a test double of the session provider, the emitter, the logger and the services would
  record.
\<close>

datatype action =
    GetOrCreate RemoteConnectionConfiguration
  | ResolveRealPath session_ref string
  | ReadFile session_ref string
  | TomlParse string
  | SeasonParse string
  | ProjectReplace project_contents
  | CloseServer session_ref
  | Construct conn_ref RemoteConnection
  | AddConnection session_ref conn_ref
  | GetHgRepository session_ref string
  | Emit string conn_ref
  | WatchDirectoryRecursive session_ref string
  | Dispose conn_ref
  | RemoveConnection session_ref conn_ref bool
  | GetConnectionConfig string
  | LookupPreferIpv6 string
  | Log level string

text \<open>
  Modelled from the spec: \<open>ServerConnection.js\<close> is not among the sources. The state of
  the session provider that \<open>RemoteConnection\<close> reads is the process-wide mapping from
  hostname to session (\<open>ServerConnection.getByHostname\<close>), each session's list of
  attached connections in registration order (\<open>getConnections()\<close>) and its remote
  hostname (\<open>getRemoteHostname()\<close>).
\<close>

record registry =
  hostToConnection :: "string \<Rightarrow> session_ref option"
  connections :: "session_ref \<Rightarrow> conn_ref list"
  remoteHostname :: "session_ref \<Rightarrow> string"

text \<open>
  Work that was started and not awaited. The only one the module has is the \<open>close\<close> that
  the \<open>catch\<close> of \<open>_initialize\<close> calls: it is suspended at its \<open>await\<close> of the
  detachment, with the session, the connection and \<open>shutdownIfLast\<close> it was called with.
\<close>

datatype task = ClosePending session_ref conn_ref bool

text \<open>
  The world of one task: the registry it shares with the other tasks, the heap of
  \<open>RemoteConnection\<close> objects with the next free address, the journal, and the work it
  has started and left behind.
\<close>

record world =
  reg :: registry
  heap :: "conn_ref \<Rightarrow> RemoteConnection"
  nextRef :: conn_ref
  journal :: "action list"
  pending :: "task list"

text \<open>
  A call on an external collaborator either raises or returns, and hands back the
  registry as the caller finds it when it resumes: whatever other tasks did to the
  sessions during an \<open>await\<close> is part of the collaborator's answer.
\<close>

type_synonym 'a io = "registry \<Rightarrow> (js_error + 'a) \<times> registry"

text \<open>
  The collaborators of the module, none of them among the sources: the session provider
  (\<open>getOrCreate\<close>, \<open>removeConnection\<close>, \<open>close\<close>), the remote services reached through
  \<open>getService\<close> (a failing \<open>getService\<close> is a failure of the first call on the service),
  the subscribers of the emitter (\<open>deliver\<close>), the saved configurations, the address
  lookup, the two parsers, \<open>atom.project.replace\<close> (absent in older editors) and the
  pure helpers of \<open>nuclideUri\<close>.
\<close>

record env =
  getOrCreate :: "RemoteConnectionConfiguration \<Rightarrow> session_ref io"
  resolveRealPath :: "session_ref \<Rightarrow> string \<Rightarrow> string io"
  readFile :: "session_ref \<Rightarrow> string \<Rightarrow> string io"
  getHgRepository :: "session_ref \<Rightarrow> string \<Rightarrow> HgRepositoryDescription option io"
  watchDirectoryRecursive :: "session_ref \<Rightarrow> string \<Rightarrow> unit io"
  removeConnection :: "session_ref \<Rightarrow> conn_ref \<Rightarrow> bool \<Rightarrow> unit io"
  closeServer :: "session_ref \<Rightarrow> registry \<Rightarrow> registry"
  deliver :: "string \<Rightarrow> conn_ref \<Rightarrow> unit io"
  getConnectionConfig :: "string \<Rightarrow> RemoteConnectionConfiguration option io"
  lookupPreferIpv6 :: "string \<Rightarrow> string io"
  toml_parse :: "string \<Rightarrow> js_error + project_contents"
  season_parse :: "string \<Rightarrow> js_error + project_contents"
  projectReplace :: "(project_contents \<Rightarrow> unit io) option"
  extname :: "string \<Rightarrow> string"
  dirname :: "string \<Rightarrow> string"
  resolve :: "string \<Rightarrow> string \<Rightarrow> string"
  isRemote :: "string \<Rightarrow> bool"
  getHostname :: "string \<Rightarrow> string"

section \<open>Operations\<close>

definition perform :: "action \<Rightarrow> world \<Rightarrow> world" where
  "perform a w = w\<lparr>journal := journal w @ [a]\<rparr>"

text \<open>
  \<open>answer\<close> is the resumption after an \<open>await\<close>: the outcome of the collaborator and the
  registry as it is then. \<open>call\<close> is a call that is awaited on the spot: the journal
  entry, then the answer.
\<close>

definition answer :: "'a io \<Rightarrow> world \<Rightarrow> (js_error + 'a) \<times> world" where
  "answer f w = (case f (reg w) of (r, g) \<Rightarrow> (r, w\<lparr>reg := g\<rparr>))"

definition call :: "action \<Rightarrow> 'a io \<Rightarrow> world \<Rightarrow> (js_error + 'a) \<times> world" where
  "call a f w = (case f (reg w) of (r, g) \<Rightarrow> (r, w\<lparr>reg := g, journal := journal w @ [a]\<rparr>))"

text \<open>\<open>hasAtomProjectFormat\<close> (line 493).\<close>

definition hasAtomProjectFormat :: "env \<Rightarrow> string \<Rightarrow> bool" where
  "hasAtomProjectFormat e filepath =
     (let ext = extname e filepath in ext = ''.json'' \<or> ext = ''.cson'')"

text \<open>\<open>parseProject\<close> (line 498): \<open>toml.parse\<close>, and \<open>season.parse\<close> on a \<open>SyntaxError\<close>.\<close>

definition parseProject :: "env \<Rightarrow> string \<Rightarrow> world \<Rightarrow> (js_error + project_contents) \<times> world" where
  "parseProject e raw w =
     (case toml_parse e raw of
        Inr v \<Rightarrow> (Inr v, perform (TomlParse raw) w)
      | Inl err \<Rightarrow>
          if name err = ''SyntaxError''
          then (season_parse e raw, perform (SeasonParse raw) (perform (TomlParse raw) w))
          else (Inl err, perform (TomlParse raw) w))"

text \<open>\<open>getByHostname\<close> (line 471) and \<open>getByHostnameAndPath\<close> (line 462).\<close>

definition getByHostname :: "string \<Rightarrow> registry \<Rightarrow> conn_ref list" where
  "getByHostname hostname g =
     (case hostToConnection g hostname of None \<Rightarrow> [] | Some server \<Rightarrow> connections g server)"

definition getPathForInitialWorkingDirectory :: "world \<Rightarrow> conn_ref \<Rightarrow> string" where
  "getPathForInitialWorkingDirectory w this = rc_cwd (heap w this)"

definition getByHostnameAndPath :: "string \<Rightarrow> string \<Rightarrow> world \<Rightarrow> conn_ref option" where
  "getByHostnameAndPath hostname path w =
     (case filter (\<lambda>connection. prefix (getPathForInitialWorkingDirectory w connection) path)
             (getByHostname hostname (reg w)) of
        [] \<Rightarrow> None
      | connection # _ \<Rightarrow> Some connection)"

text \<open>\<open>getUriOfRemotePath\<close> (line 275) and \<open>getUriForInitialWorkingDirectory\<close> (line 418).\<close>

definition getRemoteHostname :: "world \<Rightarrow> conn_ref \<Rightarrow> string" where
  "getRemoteHostname w this = remoteHostname (reg w) (rc_connection (heap w this))"

definition getUriOfRemotePath :: "world \<Rightarrow> conn_ref \<Rightarrow> string \<Rightarrow> string" where
  "getUriOfRemotePath w this remotePath = ''nuclide://'' @ getRemoteHostname w this @ remotePath"

definition getUriForInitialWorkingDirectory :: "world \<Rightarrow> conn_ref \<Rightarrow> string" where
  "getUriForInitialWorkingDirectory w this =
     getUriOfRemotePath w this (getPathForInitialWorkingDirectory w this)"

text \<open>\<open>RemoteConnection._emitter.emit\<close>: the emission is journalled, then the subscribers run.\<close>

definition emit :: "env \<Rightarrow> string \<Rightarrow> conn_ref \<Rightarrow> world \<Rightarrow> (js_error + unit) \<times> world" where
  "emit e event this w = call (Emit event this) (deliver e event this) w"

text \<open>
  \<open>close\<close> (line 392) in its two parts. What runs at once when the method is called: the
  log line, the disposal of the subscriptions and the call of \<open>removeConnection\<close> on the
  session. What runs when the detachment has answered: a detachment that raised leaves
  the function at the \<open>await\<close>; otherwise \<open>did-close\<close> is emitted. A caller that awaits
  \<open>close\<close> sees the two parts in a row.
\<close>

definition close_start :: "conn_ref \<Rightarrow> bool \<Rightarrow> world \<Rightarrow> world" where
  "close_start this shutdownIfLast w =
     (let w1 = perform (Log Info ''Received close command!'') w;
          w2 = perform (Dispose this) w1;
          server = rc_connection (heap w2 this)
      in perform (RemoveConnection server this shutdownIfLast) w2)"

definition close_resume ::
  "env \<Rightarrow> session_ref \<Rightarrow> conn_ref \<Rightarrow> bool \<Rightarrow> world \<Rightarrow> (js_error + unit) \<times> world" where
  "close_resume e server this shutdownIfLast w =
     (case answer (removeConnection e server this shutdownIfLast) w of
        (Inl err, w3) \<Rightarrow> (Inl err, w3)
      | (Inr _, w3) \<Rightarrow> emit e ''did-close'' this w3)"

definition close :: "env \<Rightarrow> conn_ref \<Rightarrow> bool \<Rightarrow> world \<Rightarrow> (js_error + unit) \<times> world" where
  "close e this shutdownIfLast w =
     close_resume e (rc_connection (heap w this)) this shutdownIfLast
       (close_start this shutdownIfLast w)"

text \<open>
  The started work runs on when the task that started it has gone on: each suspended
  \<open>close\<close> resumes with the answer of its detachment. Nothing awaits it, so its outcome,
  a raised detachment or a raised delivery, goes nowhere. \<open>settle\<close> resumes what a task
  has left pending, oldest first, once the task is over; in the program a pending \<open>close\<close>
  may also resume earlier, between two resumptions of the task.
\<close>

definition settleTask :: "env \<Rightarrow> task \<Rightarrow> world \<Rightarrow> world" where
  "settleTask e t w =
     (case t of ClosePending server this shutdownIfLast \<Rightarrow>
        snd (close_resume e server this shutdownIfLast w))"

definition settle :: "env \<Rightarrow> world \<Rightarrow> world" where
  "settle e w = foldl (\<lambda>v t. settleTask e t v) (w\<lparr>pending := []\<rparr>) (pending w)"

text \<open>
  Modelled from the spec: \<open>ServerConnection.addConnection\<close> registers the connection
  under its session, after the ones registered before it (first registered, first found).
\<close>

definition addConnection :: "session_ref \<Rightarrow> conn_ref \<Rightarrow> registry \<Rightarrow> registry" where
  "addConnection server this g =
     g\<lparr>connections := (connections g)(server := connections g server @ [this])\<rparr>"

text \<open>
  \<open>_setHgRepoInfo\<close> (line 267) in its two parts: the call of \<open>getHgRepository\<close>, which is
  made at once, and the storing of its answer. \<open>_watchRootProjectDirectory\<close> (line 324)
  has no \<open>await\<close>.
\<close>

definition setHgRepositoryDescription ::
  "conn_ref \<Rightarrow> HgRepositoryDescription option \<Rightarrow> world \<Rightarrow> world" where
  "setHgRepositoryDescription this d w =
     w\<lparr>heap := (heap w)(this := (heap w this)\<lparr>rc_hgRepositoryDescription := d\<rparr>)\<rparr>"

definition setHgRepoInfo_start :: "conn_ref \<Rightarrow> world \<Rightarrow> world" where
  "setHgRepoInfo_start this w =
     (let remotePath = getPathForInitialWorkingDirectory w this;
          server = rc_connection (heap w this)
      in perform (GetHgRepository server remotePath) w)"

definition setHgRepoInfo_resume :: "env \<Rightarrow> conn_ref \<Rightarrow> world \<Rightarrow> (js_error + unit) \<times> world" where
  "setHgRepoInfo_resume e this w =
     (let remotePath = getPathForInitialWorkingDirectory w this;
          server = rc_connection (heap w this)
      in case answer (getHgRepository e server remotePath) w of
           (Inl err, w1) \<Rightarrow> (Inl err, w1)
         | (Inr d, w1) \<Rightarrow> (Inr (), setHgRepositoryDescription this d w1))"

definition watchRootProjectDirectory :: "env \<Rightarrow> conn_ref \<Rightarrow> world \<Rightarrow> (js_error + unit) \<times> world" where
  "watchRootProjectDirectory e this w =
     (let rootDirectoryUri = getUriForInitialWorkingDirectory w this;
          server = rc_connection (heap w this)
      in call (WatchDirectoryRecursive server rootDirectoryUri)
              (watchDirectoryRecursive e server rootDirectoryUri) w)"

text \<open>
  \<open>_initialize\<close> (line 306) in its two parts. What runs at once when the method is
  called, up to the first suspension: the attachment, and \<open>_setHgRepoInfo\<close> as far as its
  call of \<open>getHgRepository\<close>. What runs when the lookup has answered: the storing of the
  description, the \<open>did-add\<close> emission and the start of the watch. In the \<open>catch\<close>,
  \<open>close\<close> is called and not awaited: it runs as far as its call of \<open>removeConnection\<close>,
  is left suspended there, and the failure is raised again.
\<close>

definition initialize_start :: "conn_ref \<Rightarrow> world \<Rightarrow> world" where
  "initialize_start this w =
     (let server = rc_connection (heap w this);
          w1 = (perform (AddConnection server this) w)\<lparr>reg := addConnection server this (reg w)\<rparr>
      in setHgRepoInfo_start this w1)"

definition initialize_catch :: "conn_ref \<Rightarrow> js_error \<Rightarrow> world \<Rightarrow> (js_error + conn_ref) \<times> world" where
  "initialize_catch this err w =
     (let attemptShutdown = False;
          w1 = close_start this attemptShutdown w
      in (Inl err,
          w1\<lparr>pending := pending w1 @ [ClosePending (rc_connection (heap w this)) this attemptShutdown]\<rparr>))"

definition initialize_resume :: "env \<Rightarrow> conn_ref \<Rightarrow> world \<Rightarrow> (js_error + conn_ref) \<times> world" where
  "initialize_resume e this w =
     (case setHgRepoInfo_resume e this w of
        (Inl err, w1) \<Rightarrow> initialize_catch this err w1
      | (Inr _, w1) \<Rightarrow>
          (case emit e ''did-add'' this w1 of
             (Inl err, w2) \<Rightarrow> initialize_catch this err w2
           | (Inr _, w2) \<Rightarrow>
               (case watchRootProjectDirectory e this w2 of
                  (Inl err, w3) \<Rightarrow> initialize_catch this err w3
                | (Inr _, w3) \<Rightarrow> (Inr this, w3))))"

definition initialize :: "env \<Rightarrow> conn_ref \<Rightarrow> world \<Rightarrow> (js_error + conn_ref) \<times> world" where
  "initialize e this w = initialize_resume e this (initialize_start this w)"

text \<open>
  The constructor (line 145) sets the fields of a new object and does nothing else;
  \<open>construct\<close> is \<open>new RemoteConnection(...)\<close>, the allocation with it.
\<close>

definition newConnection :: "session_ref \<Rightarrow> string \<Rightarrow> string \<Rightarrow> bool \<Rightarrow> RemoteConnection" where
  "newConnection connection dir title prompt =
     \<lparr>rc_cwd = dir, rc_hgRepositoryDescription = None, rc_connection = connection,
      rc_displayTitle = title, rc_alwaysShutdownIfLast = False,
      rc_promptReconnectOnFailure = prompt\<rparr>"

definition construct ::
  "session_ref \<Rightarrow> string \<Rightarrow> string \<Rightarrow> bool \<Rightarrow> world \<Rightarrow> conn_ref \<times> world" where
  "construct connection dir title prompt w =
     (let this = nextRef w;
          obj = newConnection connection dir title prompt
      in (this, w\<lparr>heap := (heap w)(this := obj),
                   nextRef := Suc this,
                   journal := journal w @ [Construct this obj]\<rparr>))"

text \<open>
  \<open>findOrCreate\<close> (line 68). The body of its \<open>try\<close> block either raises, returns an
  existing connection, or leaves the list \<open>directories\<close>.
\<close>

datatype resolved = Existing conn_ref | Directories "string list"

definition readContents :: "env \<Rightarrow> session_ref \<Rightarrow> string \<Rightarrow> world \<Rightarrow> string option \<times> world" where
  "readContents e serverConnection realPath w =
     (if hasAtomProjectFormat e realPath
      then (case call (ReadFile serverConnection realPath) (readFile e serverConnection realPath) w of
              (Inl _, w1) \<Rightarrow> (None, w1)
            | (Inr contents, w1) \<Rightarrow> (Some contents, w1))
      else (None, w))"

definition tryBlock ::
  "env \<Rightarrow> RemoteConnectionConfiguration \<Rightarrow> session_ref \<Rightarrow> world \<Rightarrow> (js_error + resolved) \<times> world" where
  "tryBlock e config serverConnection w =
     (case call (ResolveRealPath serverConnection (cwd config))
                (resolveRealPath e serverConnection (cwd config)) w of
        (Inl err, w1) \<Rightarrow> (Inl err, w1)
      | (Inr realPath, w1) \<Rightarrow>
          (case readContents e serverConnection realPath w1 of
             (None, w2) \<Rightarrow>
               (if realPath \<noteq> cwd config \<and> isRemote e (cwd config)
                then (case getByHostnameAndPath (getHostname e (cwd config)) realPath w2 of
                        Some existingConnection \<Rightarrow> (Inr (Existing existingConnection), w2)
                      | None \<Rightarrow> (Inr (Directories [realPath]), w2))
                else (Inr (Directories [realPath]), w2))
           | (Some contents, w2) \<Rightarrow>
               (case parseProject e contents w2 of
                  (Inl err, w3) \<Rightarrow> (Inl err, w3)
                | (Inr projectContents, w3) \<Rightarrow>
                    (let dir = dirname e realPath;
                         directories =
                           (case paths projectContents of
                              PathsArray projectPaths \<Rightarrow> map (resolve e dir) projectPaths
                            | _ \<Rightarrow> [dir])
                     in case projectReplace e of
                          None \<Rightarrow> (Inr (Directories directories), w3)
                        | Some replace \<Rightarrow>
                            (let replaced = projectContents\<lparr>paths := PathsArray directories,
                                                           originPath := Some realPath\<rparr>
                             in case call (ProjectReplace replaced) (replace replaced) w3 of
                                  (Inl err, w4) \<Rightarrow> (Inl err, w4)
                                | (Inr _, w4) \<Rightarrow> (Inr (Directories directories), w4))))))"

text \<open>The \<open>catch\<close> of \<open>findOrCreate\<close> (line 119): close the session when nothing is attached.\<close>

definition catchBlock :: "env \<Rightarrow> session_ref \<Rightarrow> world \<Rightarrow> world" where
  "catchBlock e serverConnection w =
     (if length (connections (reg w) serverConnection) = 0
      then (perform (CloseServer serverConnection) w)\<lparr>reg := closeServer e serverConnection (reg w)\<rparr>
      else w)"

text \<open>
  \<open>Promise.all(directories.map(...))\<close> (line 128). The callback of \<open>map\<close> runs for every
  directory at once: it constructs the connection and calls \<open>_initialize\<close>, which attaches
  it, asks for the source-control description and suspends. The initialisations then
  resume; they are taken in index order, each to its end, so the rejection \<open>Promise.all\<close>
  reports is that of the lowest failing index. One failing initialisation does not stop
  the others.
\<close>

fun startAll ::
  "session_ref \<Rightarrow> string \<Rightarrow> bool \<Rightarrow> nat \<Rightarrow> string list \<Rightarrow> world \<Rightarrow> conn_ref list \<times> world" where
  "startAll serverConnection title prompt i [] w = ([], w)"
| "startAll serverConnection title prompt i (dir # dirs) w =
     (case construct serverConnection dir (if i = 0 then title else '''') prompt w of
        (connection, w1) \<Rightarrow>
          (case startAll serverConnection title prompt (Suc i) dirs (initialize_start connection w1) of
             (rest, w2) \<Rightarrow> (connection # rest, w2)))"

fun resumeAll :: "env \<Rightarrow> conn_ref list \<Rightarrow> world \<Rightarrow> (js_error + conn_ref) list \<times> world" where
  "resumeAll e [] w = ([], w)"
| "resumeAll e (connection # rest) w =
     (case initialize_resume e connection w of
        (r, w1) \<Rightarrow> (case resumeAll e rest w1 of (rs, w2) \<Rightarrow> (r # rs, w2)))"

fun promiseAll :: "(js_error + 'a) list \<Rightarrow> js_error + 'a list" where
  "promiseAll [] = Inr []"
| "promiseAll (Inl err # rs) = Inl err"
| "promiseAll (Inr x # rs) = (case promiseAll rs of Inl err \<Rightarrow> Inl err | Inr xs \<Rightarrow> Inr (x # xs))"

definition first :: "'a list \<Rightarrow> 'a option" where
  "first xs = (case xs of [] \<Rightarrow> None | x # _ \<Rightarrow> Some x)"

definition findOrCreate ::
  "env \<Rightarrow> RemoteConnectionConfiguration \<Rightarrow> world \<Rightarrow> (js_error + conn_ref option) \<times> world" where
  "findOrCreate e config w =
     (case call (GetOrCreate config) (getOrCreate e config) w of
        (Inl err, w1) \<Rightarrow> (Inl err, w1)
      | (Inr serverConnection, w1) \<Rightarrow>
          (case tryBlock e config serverConnection w1 of
             (Inl err, w2) \<Rightarrow> (Inl err, catchBlock e serverConnection w2)
           | (Inr (Existing existingConnection), w2) \<Rightarrow> (Inr (Some existingConnection), w2)
           | (Inr (Directories directories), w2) \<Rightarrow>
               (case startAll serverConnection (displayTitle config)
                       (promptReconnectOnFailure config \<noteq> Some False) 0 directories w2 of
                  (started, w3) \<Rightarrow>
                    (case resumeAll e started w3 of
                       (results, w4) \<Rightarrow>
                         (case promiseAll results of
                            Inl err \<Rightarrow> (Inl err, w4)
                          | Inr conns \<Rightarrow> (Inr (first conns), w4))))))"

text \<open>\<open>_createConnectionBySavedConfig\<close> (line 179).\<close>

definition createConnectionBySavedConfig ::
  "env \<Rightarrow> string \<Rightarrow> string \<Rightarrow> string \<Rightarrow> bool \<Rightarrow> world \<Rightarrow> (js_error + conn_ref option) \<times> world" where
  "createConnectionBySavedConfig e h dir title prompt w =
     (case call (GetConnectionConfig h) (getConnectionConfig e h) w of
        (Inl err, w1) \<Rightarrow> (Inl err, w1)
      | (Inr None, w1) \<Rightarrow> (Inr None, w1)
      | (Inr (Some connectionConfig), w1) \<Rightarrow>
          (let config = connectionConfig\<lparr>cwd := dir, displayTitle := title,
                                          promptReconnectOnFailure := Some prompt\<rparr>
           in case findOrCreate e config w1 of
                (Inr connection, w2) \<Rightarrow> (Inr connection, w2)
              | (Inl err, w2) \<Rightarrow>
                  if code err = Some ''ENOENT''
                  then (Inl (err\<lparr>sshHandshakeErrorType := Some ''DIRECTORY_NOT_FOUND''\<rparr>), w2)
                  else (Inr None,
                        perform (Log (if name err = ''VersionMismatchError'' then Warn else Error)
                                  (''Failed to reuse connectionConfiguration for '' @ h)) w2)))"

text \<open>\<open>reconnect\<close> (line 220).\<close>

definition reconnect ::
  "env \<Rightarrow> string \<Rightarrow> string \<Rightarrow> string \<Rightarrow> bool \<Rightarrow> world \<Rightarrow> (js_error + conn_ref option) \<times> world" where
  "reconnect e h dir title prompt w =
     (let w0 = perform (Log Info ''Attempting to reconnect'') w
      in case (if \<not> hasAtomProjectFormat e dir then getByHostnameAndPath h dir w0 else None) of
           Some connection \<Rightarrow> (Inr (Some connection), w0)
         | None \<Rightarrow>
             (case createConnectionBySavedConfig e h dir title prompt w0 of
                (Inl err, w1) \<Rightarrow> (Inl err, w1)
              | (Inr (Some connection), w1) \<Rightarrow> (Inr (Some connection), w1)
              | (Inr None, w1) \<Rightarrow>
                  (case call (LookupPreferIpv6 h) (lookupPreferIpv6 e h) w1 of
                     (Inl _, w2) \<Rightarrow> (Inr None, w2)
                   | (Inr address, w2) \<Rightarrow>
                       (case createConnectionBySavedConfig e address dir title prompt w2 of
                          (Inl _, w3) \<Rightarrow> (Inr None, w3)
                        | (Inr connection, w3) \<Rightarrow> (Inr connection, w3)))))"

section \<open>Reading the journal\<close>

text \<open>
  The three entries that starting the connection of index \<open>k\<close> leaves in the journal,
  when the first free address is \<open>n\<close> and \<open>i\<close> connections were started before: the
  construction, the attachment and the request for the source-control description. The
  connection of index 0 carries the title, the others the empty string.
\<close>

definition startEntries ::
  "session_ref \<Rightarrow> string \<Rightarrow> bool \<Rightarrow> nat \<Rightarrow> nat \<Rightarrow> string list \<Rightarrow> nat \<Rightarrow> action list" where
  "startEntries s title prompt n i ds k =
     [Construct (n + k) (newConnection s (ds ! k) (if i + k = 0 then title else '''') prompt),
      AddConnection s (n + k),
      GetHgRepository s (ds ! k)]"

text \<open>The entries that resuming an initialisation, or closing a connection, can leave.\<close>

definition lifecycle :: "action \<Rightarrow> bool" where
  "lifecycle a =
     (case a of
        Emit _ _ \<Rightarrow> True
      | WatchDirectoryRecursive _ _ \<Rightarrow> True
      | Dispose _ \<Rightarrow> True
      | RemoveConnection _ _ _ \<Rightarrow> True
      | Log _ _ \<Rightarrow> True
      | _ \<Rightarrow> False)"

definition appended :: "(action \<Rightarrow> bool) \<Rightarrow> world \<Rightarrow> world \<Rightarrow> bool" where
  "appended P w w' =
     ((\<exists>js. journal w' = journal w @ js \<and> list_all P js) \<and> nextRef w' = nextRef w)"

section \<open>A development host\<close>

text \<open>
  Concrete collaborators on which the operations are run: one session, number 0, for the
  host \<open>dev\<close>; under \<open>/proj\<close> the project descriptors \<open>app.json\<close>, which lists \<open>a\<close> and
  \<open>b\<close>, \<open>plain.json\<close>, which lists nothing, and \<open>bad.json\<close>, which does not parse; a
  path \<open>/missing\<close> that does not exist; a directory \<open>/data/nohg\<close> whose source-control
  lookup fails; a saved configuration filed under the address of \<open>dev\<close> only, and one
  under another address for a server of another version, on port 8080.
\<close>

definition syntaxError :: js_error where
  "syntaxError = \<lparr>name = ''SyntaxError'', code = None, sshHandshakeErrorType = None\<rparr>"

definition typeError :: js_error where
  "typeError = \<lparr>name = ''TypeError'', code = None, sshHandshakeErrorType = None\<rparr>"

definition enoent :: js_error where
  "enoent = \<lparr>name = ''Error'', code = Some ''ENOENT'', sshHandshakeErrorType = None\<rparr>"

definition versionMismatch :: js_error where
  "versionMismatch =
     \<lparr>name = ''VersionMismatchError'', code = None, sshHandshakeErrorType = None\<rparr>"

text \<open>
  Modelled from the spec: the session's \<open>removeConnection\<close> when no shutdown is due. It
  takes the connection off the session's list and is a no-op when it is not there.
\<close>

definition detach :: "session_ref \<Rightarrow> conn_ref \<Rightarrow> bool \<Rightarrow> unit io" where
  "detach server this shutdownIfLast g =
     (Inr (), g\<lparr>connections := (connections g)(server := removeAll this (connections g server))\<rparr>)"

definition savedConfig :: RemoteConnectionConfiguration where
  "savedConfig = \<lparr>host = ''10.0.0.1'', port = 9090, cwd = ''/home'', displayTitle = ''saved'',
                   promptReconnectOnFailure = None\<rparr>"

definition oldConfig :: RemoteConnectionConfiguration where
  "oldConfig = \<lparr>host = ''10.0.0.2'', port = 8080, cwd = ''/home'', displayTitle = ''old'',
                 promptReconnectOnFailure = None\<rparr>"

definition devEnv :: env where
  "devEnv =
     \<lparr>getOrCreate = (\<lambda>config g. if port config = 8080 then (Inl versionMismatch, g) else (Inr 0, g)),
      resolveRealPath = (\<lambda>server path g.
         if path = ''/missing'' then (Inl enoent, g)
         else if path = ''nuclide://dev/link'' then (Inr ''/data/foo'', g)
         else if path = ''nuclide://dev/project'' then (Inr ''/proj/app.json'', g)
         else (Inr path, g)),
      readFile = (\<lambda>server path g.
         if path = ''/proj/app.json'' then (Inr ''paths = [a, b]'', g)
         else if path = ''/proj/plain.json'' then (Inr ''title = x'', g)
         else if path = ''/proj/bad.json'' then (Inr ''bad'', g)
         else (Inl enoent, g)),
      getHgRepository = (\<lambda>server path g.
         if path = ''/data/nohg'' then (Inl typeError, g) else (Inr None, g)),
      watchDirectoryRecursive = (\<lambda>server uri g. (Inr (), g)),
      removeConnection = detach,
      closeServer = (\<lambda>server g. g),
      deliver = (\<lambda>event connection g. (Inr (), g)),
      getConnectionConfig = (\<lambda>h g.
         (Inr (if h = ''10.0.0.1'' then Some savedConfig
               else if h = ''10.0.0.2'' then Some oldConfig else None), g)),
      lookupPreferIpv6 = (\<lambda>h g. if h = ''dev'' then (Inr ''10.0.0.1'', g) else (Inl typeError, g)),
      toml_parse = (\<lambda>raw.
         if raw = ''paths = [a, b]'' then Inr \<lparr>paths = PathsArray [''a'', ''b''], originPath = None\<rparr>
         else if raw = ''title = x'' then Inr \<lparr>paths = PathsNull, originPath = None\<rparr>
         else if raw = ''paths: [a]'' then Inl syntaxError
         else Inl typeError),
      season_parse = (\<lambda>raw.
         if raw = ''paths: [a]'' then Inr \<lparr>paths = PathsArray [''a''], originPath = None\<rparr>
         else Inl syntaxError),
      projectReplace = None,
      extname = (\<lambda>path. if prefix ''/proj/'' path then ''.json'' else ''''),
      dirname = (\<lambda>path. if prefix ''/proj/'' path then ''/proj'' else ''/''),
      resolve = (\<lambda>dir path. dir @ ''/'' @ path),
      isRemote = (\<lambda>path. prefix ''nuclide://'' path),
      getHostname = (\<lambda>path. ''dev'')\<rparr>"

text \<open>The same host with a session whose \<open>removeConnection\<close> raises.\<close>

definition stuckEnv :: env where
  "stuckEnv = devEnv\<lparr>removeConnection := (\<lambda>server this shutdownIfLast g. (Inl typeError, g))\<rparr>"

text \<open>That host again, with a file watcher service that cannot be reached.\<close>

definition blindEnv :: env where
  "blindEnv = stuckEnv\<lparr>watchDirectoryRecursive := (\<lambda>server uri g. (Inl typeError, g))\<rparr>"

text \<open>
  The development host when the connections of the session are closed by another task
  while a source-control lookup is awaited, and the lookup fails.
\<close>

definition raceEnv :: env where
  "raceEnv = devEnv\<lparr>getHgRepository := (\<lambda>server path g.
     (Inl typeError, g\<lparr>connections := (connections g)(server := [])\<rparr>))\<rparr>"

definition devRegistry :: "conn_ref list \<Rightarrow> registry" where
  "devRegistry attached =
     \<lparr>hostToConnection = (\<lambda>h. if h = ''dev'' then Some 0 else None),
      connections = (\<lambda>server. if server = 0 then attached else []),
      remoteHostname = (\<lambda>server. ''dev'')\<rparr>"

definition devHeap :: "conn_ref \<Rightarrow> RemoteConnection" where
  "devHeap c =
     \<lparr>rc_cwd = (if c = 0 then ''/data/foo'' else if c = 1 then ''/data'' else ''/proj/app.json''),
      rc_hgRepositoryDescription = None, rc_connection = 0, rc_displayTitle = '''',
      rc_alwaysShutdownIfLast = False, rc_promptReconnectOnFailure = True\<rparr>"

text \<open>
  \<open>busyWorld\<close>: three connections are attached to the session, rooted at \<open>/data/foo\<close>,
  \<open>/data\<close> and \<open>/proj/app.json\<close> in this order (the third was opened while the
  descriptor could not be read, which makes its path the directory). \<open>idleWorld\<close>: none is.
\<close>

definition busyWorld :: world where
  "busyWorld = \<lparr>reg = devRegistry [0, 1, 2], heap = devHeap, nextRef = 3, journal = [],
                 pending = []\<rparr>"

definition idleWorld :: world where
  "idleWorld = \<lparr>reg = devRegistry [], heap = devHeap, nextRef = 3, journal = [],
                 pending = []\<rparr>"

definition devConfig :: "string \<Rightarrow> RemoteConnectionConfiguration" where
  "devConfig dir = \<lparr>host = ''dev'', port = 9090, cwd = dir, displayTitle = ''My project'',
                    promptReconnectOnFailure = None\<rparr>"

section \<open>Properties\<close>

lemmas model_defs =
  perform_def answer_def call_def hasAtomProjectFormat_def parseProject_def getByHostname_def
  getPathForInitialWorkingDirectory_def getByHostnameAndPath_def getRemoteHostname_def
  getUriOfRemotePath_def getUriForInitialWorkingDirectory_def emit_def close_start_def
  close_resume_def close_def settleTask_def settle_def
  addConnection_def setHgRepositoryDescription_def setHgRepoInfo_start_def
  setHgRepoInfo_resume_def watchRootProjectDirectory_def initialize_start_def
  initialize_catch_def initialize_resume_def initialize_def newConnection_def construct_def
  readContents_def tryBlock_def catchBlock_def first_def findOrCreate_def
  createConnectionBySavedConfig_def reconnect_def Let_def

lemmas fixture_defs =
  syntaxError_def typeError_def enoent_def versionMismatch_def detach_def savedConfig_def
  oldConfig_def devEnv_def devRegistry_def devHeap_def busyWorld_def idleWorld_def devConfig_def

subsection \<open>The journal only grows\<close>

lemma appended_refl: "appended P w w"
  by (simp add: appended_def)

lemma appended_trans: "appended P w w1 \<Longrightarrow> appended P w1 w2 \<Longrightarrow> appended P w w2"
  by (auto simp: appended_def)

lemma appended_call: "P a \<Longrightarrow> call a f w = (r, w') \<Longrightarrow> appended P w w'"
  by (auto simp: appended_def call_def split: prod.splits)

lemma appended_emit: "emit e ev c w = (r, w') \<Longrightarrow> appended lifecycle w w'"
  unfolding emit_def by (rule appended_call) (simp_all add: lifecycle_def)

lemma appended_setHgRepoInfo_resume:
  "setHgRepoInfo_resume e c w = (r, w') \<Longrightarrow> appended lifecycle w w'"
  by (auto simp: setHgRepoInfo_resume_def Let_def answer_def appended_def
      setHgRepositoryDescription_def split: prod.splits sum.splits)

lemma appended_watch: "watchRootProjectDirectory e c w = (r, w') \<Longrightarrow> appended lifecycle w w'"
  unfolding watchRootProjectDirectory_def Let_def
  by (rule appended_call) (simp_all add: lifecycle_def)

lemma appended_catch: "initialize_catch c err w = (r, w') \<Longrightarrow> appended lifecycle w w'"
  by (auto simp: initialize_catch_def close_start_def Let_def perform_def appended_def
      lifecycle_def)

lemma appended_resume: "initialize_resume e c w = (r, w') \<Longrightarrow> appended lifecycle w w'"
  unfolding initialize_resume_def
  by (auto split: prod.splits sum.splits
      dest!: appended_setHgRepoInfo_resume appended_emit appended_watch appended_catch
      intro: appended_trans)

lemma appended_resumeAll: "appended lifecycle w (snd (resumeAll e cs w))"
proof (induction cs arbitrary: w)
  case Nil
  then show ?case by (simp add: appended_refl)
next
  case (Cons c cs)
  obtain r w1 where r: "initialize_resume e c w = (r, w1)" by (cases "initialize_resume e c w") blast
  have "snd (resumeAll e (c # cs) w) = snd (resumeAll e cs w1)"
    by (simp add: r split: prod.splits)
  with appended_resume[OF r] Cons.IH[of w1] show ?case by (auto intro: appended_trans)
qed

lemma lifecycle_not_close: "list_all lifecycle js \<Longrightarrow> CloseServer s' \<notin> set js"
  by (auto simp: list_all_iff lifecycle_def)

lemma startEntries_not_close: "CloseServer s' \<notin> set (concat (map (startEntries s title prompt n i ds) ks))"
  by (auto simp: startEntries_def)

subsection \<open>Starting the connections of a directory list\<close>

lemma upt_0_Suc: "[0..<Suc n] = 0 # map Suc [0..<n]"
  by (simp add: upt_conv_Cons map_Suc_upt del: upt_Suc)

lemma construct_start:
  "initialize_start (nextRef w) (snd (construct s d title prompt w)) = w1 \<Longrightarrow>
   nextRef w1 = Suc (nextRef w) \<and>
   journal w1 = journal w @ [Construct (nextRef w) (newConnection s d title prompt),
                             AddConnection s (nextRef w), GetHgRepository s d] \<and>
   connections (reg w1) s = connections (reg w) s @ [nextRef w] \<and>
   heap w1 = (heap w)(nextRef w := newConnection s d title prompt)"
  by (auto simp: construct_def initialize_start_def setHgRepoInfo_start_def
      getPathForInitialWorkingDirectory_def addConnection_def Let_def perform_def
      newConnection_def)

lemma startAll_unfold:
  "startAll s title prompt i (d # ds) w =
     (nextRef w # fst (startAll s title prompt (Suc i) ds
         (initialize_start (nextRef w) (snd (construct s d (if i = 0 then title else '''') prompt w)))),
      snd (startAll s title prompt (Suc i) ds
         (initialize_start (nextRef w) (snd (construct s d (if i = 0 then title else '''') prompt w)))))"
proof -
  have c: "fst (construct s d (if i = 0 then title else '''') prompt w) = nextRef w"
    by (simp add: construct_def Let_def)
  then show ?thesis
    by (simp add: split_beta prod_eq_iff split: prod.splits)
qed

lemma startAll_effect:
  "fst (startAll s title prompt i ds w) = map (\<lambda>k. nextRef w + k) [0..<length ds]
   \<and> nextRef (snd (startAll s title prompt i ds w)) = nextRef w + length ds
   \<and> journal (snd (startAll s title prompt i ds w)) =
       journal w @ concat (map (startEntries s title prompt (nextRef w) i ds) [0..<length ds])
   \<and> connections (reg (snd (startAll s title prompt i ds w))) s =
       connections (reg w) s @ map (\<lambda>k. nextRef w + k) [0..<length ds]"
proof (induction ds arbitrary: i w)
  case Nil
  then show ?case by simp
next
  case (Cons d ds)
  let ?t = "if i = 0 then title else ''''"
  let ?w1 = "initialize_start (nextRef w) (snd (construct s d ?t prompt w))"
  from construct_start[OF refl, of w s d ?t prompt]
  have n: "nextRef ?w1 = Suc (nextRef w)"
    and j: "journal ?w1 = journal w @ [Construct (nextRef w) (newConnection s d ?t prompt),
                                       AddConnection s (nextRef w), GetHgRepository s d]"
    and g: "connections (reg ?w1) s = connections (reg w) s @ [nextRef w]"
    by blast+
  note u = startAll_unfold[of s title prompt i d ds w]
  have s0: "startEntries s title prompt (nextRef w) i (d # ds) 0 =
      [Construct (nextRef w) (newConnection s d ?t prompt), AddConnection s (nextRef w),
       GetHgRepository s d]"
    by (simp add: startEntries_def)
  have sS: "\<And>k. startEntries s title prompt (nextRef w) i (d # ds) (Suc k) =
      startEntries s title prompt (Suc (nextRef w)) (Suc i) ds k"
    by (simp add: startEntries_def)
  from Cons.IH[of "Suc i" ?w1] show ?case
    unfolding u by (simp add: n j g upt_0_Suc s0 sS comp_def del: upt_Suc startAll.simps)
qed

text \<open>The objects that were there before are untouched, and each new one is as constructed.\<close>

lemma startAll_heap_below:
  "a < nextRef w \<Longrightarrow> heap (snd (startAll s title prompt i ds w)) a = heap w a"
proof (induction ds arbitrary: i w)
  case Nil
  then show ?case by simp
next
  case (Cons d ds)
  let ?t = "if i = 0 then title else ''''"
  let ?w1 = "initialize_start (nextRef w) (snd (construct s d ?t prompt w))"
  from construct_start[OF refl, of w s d ?t prompt]
  have n: "nextRef ?w1 = Suc (nextRef w)"
    and h: "heap ?w1 = (heap w)(nextRef w := newConnection s d ?t prompt)"
    by blast+
  from Cons.prems n have "a < nextRef ?w1" by simp
  from Cons.IH[OF this, of "Suc i"] Cons.prems h show ?case
    unfolding startAll_unfold by simp
qed

lemma startAll_heap:
  "k < length ds \<Longrightarrow>
   heap (snd (startAll s title prompt i ds w)) (nextRef w + k) =
     newConnection s (ds ! k) (if i + k = 0 then title else '''') prompt"
proof (induction ds arbitrary: i w k)
  case Nil
  then show ?case by simp
next
  case (Cons d ds)
  let ?t = "if i = 0 then title else ''''"
  let ?w1 = "initialize_start (nextRef w) (snd (construct s d ?t prompt w))"
  from construct_start[OF refl, of w s d ?t prompt]
  have n: "nextRef ?w1 = Suc (nextRef w)"
    and h: "heap ?w1 = (heap w)(nextRef w := newConnection s d ?t prompt)"
    by blast+
  show ?case
  proof (cases k)
    case 0
    have "nextRef w < nextRef ?w1" by (simp add: n)
    from startAll_heap_below[OF this, of s title prompt "Suc i" ds] h 0 show ?thesis
      unfolding startAll_unfold by simp
  next
    case (Suc k')
    with Cons.prems have "k' < length ds" by simp
    from Cons.IH[OF this, of "Suc i" ?w1] n Suc show ?thesis
      unfolding startAll_unfold by simp
  qed
qed

lemma promiseAll_Inl: "promiseAll rs = Inl err \<Longrightarrow> Inl err \<in> set rs"
  by (induction rs rule: promiseAll.induct) (auto split: sum.splits)

subsection \<open>The paths through \<open>findOrCreate\<close>\<close>

lemma findOrCreate_acquired:
  "call (GetOrCreate config) (getOrCreate e config) w = (Inr s, w1) \<Longrightarrow>
   findOrCreate e config w =
     (case tryBlock e config s w1 of
        (Inl err, w2) \<Rightarrow> (Inl err, catchBlock e s w2)
      | (Inr (Existing c), w2) \<Rightarrow> (Inr (Some c), w2)
      | (Inr (Directories ds), w2) \<Rightarrow>
          (case startAll s (displayTitle config) (promptReconnectOnFailure config \<noteq> Some False) 0 ds w2 of
             (started, w3) \<Rightarrow>
               (case resumeAll e started w3 of
                  (results, w4) \<Rightarrow>
                    (case promiseAll results of
                       Inl err \<Rightarrow> (Inl err, w4)
                     | Inr conns \<Rightarrow> (Inr (first conns), w4)))))"
  by (simp add: findOrCreate_def)

lemma findOrCreate_try_fails:
  "call (GetOrCreate config) (getOrCreate e config) w = (Inr s, w1) \<Longrightarrow>
   tryBlock e config s w1 = (Inl err, w2) \<Longrightarrow>
   findOrCreate e config w = (Inl err, catchBlock e s w2)"
  by (simp add: findOrCreate_acquired)

lemma tryBlock_parse_fails:
  "call (ResolveRealPath s (cwd config)) (resolveRealPath e s (cwd config)) w1 = (Inr realPath, w2) \<Longrightarrow>
   readContents e s realPath w2 = (Some raw, w3) \<Longrightarrow>
   parseProject e raw w3 = (Inl err, w4) \<Longrightarrow>
   tryBlock e config s w1 = (Inl err, w4)"
  by (simp add: tryBlock_def)

lemma findOrCreate_directories:
  assumes "call (GetOrCreate config) (getOrCreate e config) w = (Inr s, w1)"
    and "tryBlock e config s w1 = (Inr (Directories ds), w2)"
  shows "findOrCreate e config w =
     (let st = startAll s (displayTitle config) (promptReconnectOnFailure config \<noteq> Some False) 0 ds w2;
          rs = resumeAll e (fst st) (snd st)
      in (case promiseAll (fst rs) of Inl err \<Rightarrow> Inl err | Inr conns \<Rightarrow> Inr (first conns), snd rs))"
  using assms by (simp add: findOrCreate_acquired Let_def split: prod.splits sum.splits)

lemma findOrCreate_directories_journal:
  assumes "call (GetOrCreate config) (getOrCreate e config) w = (Inr s, w1)"
    and "tryBlock e config s w1 = (Inr (Directories ds), w2)"
  shows "\<exists>js. journal (snd (findOrCreate e config w)) =
           journal w2 @ concat (map (startEntries s (displayTitle config)
               (promptReconnectOnFailure config \<noteq> Some False) (nextRef w2) 0 ds) [0..<length ds]) @ js
         \<and> list_all lifecycle js"
proof -
  let ?st = "startAll s (displayTitle config) (promptReconnectOnFailure config \<noteq> Some False) 0 ds w2"
  let ?rs = "resumeAll e (fst ?st) (snd ?st)"
  have f: "snd (findOrCreate e config w) = snd ?rs"
    by (simp add: findOrCreate_directories[OF assms] Let_def)
  from appended_resumeAll[of "snd ?st" e "fst ?st"]
  obtain js where js: "journal (snd ?rs) = journal (snd ?st) @ js" "list_all lifecycle js"
    by (auto simp: appended_def)
  from startAll_effect[of s "displayTitle config" "promptReconnectOnFailure config \<noteq> Some False" 0 ds w2]
  have "journal (snd ?st) = journal w2 @ concat (map (startEntries s (displayTitle config)
               (promptReconnectOnFailure config \<noteq> Some False) (nextRef w2) 0 ds) [0..<length ds])"
    by blast
  with js f show ?thesis by simp
qed

subsection \<open>Lookup in the registry\<close>

text \<open>A connection that is attached comes last among those of its host.\<close>

lemma addConnection_registers_last:
  "getByHostname H (addConnection s c g) =
     (if hostToConnection g H = Some s then getByHostname H g @ [c] else getByHostname H g)"
  by (auto simp: getByHostname_def addConnection_def split: option.splits)

lemma first_filter_find:
  "(case filter p xs of [] \<Rightarrow> None | x # _ \<Rightarrow> Some x) = find p xs"
  by (induction xs) auto

lemma find_Some_split:
  "find p xs = Some c \<Longrightarrow> \<exists>pre post. xs = pre @ c # post \<and> p c \<and> (\<forall>d\<in>set pre. \<not> p d)"
proof (induction xs)
  case Nil
  then show ?case by simp
next
  case (Cons x xs)
  show ?case
  proof (cases "p x")
    case True
    with Cons.prems have "x = c" by simp
    with True have "x # xs = [] @ c # xs \<and> p c \<and> (\<forall>d\<in>set []. \<not> p d)" by simp
    then show ?thesis by blast
  next
    case False
    with Cons.prems have "find p xs = Some c" by simp
    from Cons.IH[OF this] obtain pre post where
      "xs = pre @ c # post" "p c" "\<forall>d\<in>set pre. \<not> p d" by blast
    with False have "x # xs = (x # pre) @ c # post \<and> p c \<and> (\<forall>d\<in>set (x # pre). \<not> p d)" by simp
    then show ?thesis by blast
  qed
qed

subsection \<open>What each call leaves behind\<close>

lemma call_frame: "call a f w = (r, w') \<Longrightarrow>
   nextRef w' = nextRef w \<and> heap w' = heap w \<and> journal w' = journal w @ [a]"
  by (auto simp: call_def split: prod.splits)

lemma readContents_frame: "readContents e s realPath w = (r, w') \<Longrightarrow>
   nextRef w' = nextRef w \<and> heap w' = heap w \<and>
   journal w' = journal w @ (if hasAtomProjectFormat e realPath then [ReadFile s realPath] else [])"
  by (auto simp: readContents_def call_def split: prod.splits sum.splits if_splits)

lemma parseProject_frame: "parseProject e raw w = (r, w') \<Longrightarrow>
   nextRef w' = nextRef w \<and> heap w' = heap w \<and> reg w' = reg w"
  by (auto simp: parseProject_def perform_def split: sum.splits if_splits)

lemma tryBlock_existing:
  assumes "call (ResolveRealPath s (cwd config)) (resolveRealPath e s (cwd config)) w1 = (Inr realPath, w2)"
    and "readContents e s realPath w2 = (None, w3)"
    and "realPath \<noteq> cwd config" and "isRemote e (cwd config)"
    and "getByHostnameAndPath (getHostname e (cwd config)) realPath w3 = Some c"
  shows "tryBlock e config s w1 = (Inr (Existing c), w3)"
  using assms by (simp add: tryBlock_def)

lemma tryBlock_frame: "tryBlock e config s w = (r, w') \<Longrightarrow> nextRef w' = nextRef w"
  unfolding tryBlock_def
  by (auto split: prod.splits sum.splits option.splits if_splits
      dest!: call_frame readContents_frame parseProject_frame simp: Let_def)

lemma tryBlock_descriptor:
  assumes "call (ResolveRealPath s (cwd config)) (resolveRealPath e s (cwd config)) w1 = (Inr realPath, w2)"
    and "readContents e s realPath w2 = (Some raw, w3)"
    and "parseProject e raw w3 = (Inr pc, w4)"
    and "tryBlock e config s w1 = (Inr r, w5)"
  shows "r = Directories (case paths pc of
                            PathsArray ps \<Rightarrow> map (resolve e (dirname e realPath)) ps
                          | _ \<Rightarrow> [dirname e realPath])"
  using assms(4) unfolding tryBlock_def
  by (auto simp: assms(1-3) Let_def split: option.splits prod.splits sum.splits)

lemma initialize_resume_result: "fst (initialize_resume e c w) = Inr x \<Longrightarrow> x = c"
  by (auto simp: initialize_resume_def initialize_catch_def Let_def split: prod.splits sum.splits)

lemma promiseAll_resumeAll: "promiseAll (fst (resumeAll e cs w)) = Inr xs \<Longrightarrow> xs = cs"
proof (induction cs arbitrary: w xs)
  case Nil
  then show ?case by simp
next
  case (Cons c cs)
  obtain r w1 where r: "initialize_resume e c w = (r, w1)" by (cases "initialize_resume e c w") blast
  obtain rs w2 where rs: "resumeAll e cs w1 = (rs, w2)" by (cases "resumeAll e cs w1") blast
  from Cons.prems r rs have p: "promiseAll (r # rs) = Inr xs" by simp
  then obtain x ys where x: "r = Inr x" "promiseAll rs = Inr ys" "xs = x # ys"
    by (cases r) (auto split: sum.splits)
  from r x(1) have "x = c" using initialize_resume_result[of e c w x] by simp
  moreover from Cons.IH[of w1 ys] rs x(2) have "ys = cs" by simp
  ultimately show ?case using x(3) by simp
qed

lemma setHgRepoInfo_resume_frame:
  "setHgRepoInfo_resume e this w = (r, w1) \<Longrightarrow>
     journal w1 = journal w \<and> pending w1 = pending w
   \<and> rc_connection (heap w1 a) = rc_connection (heap w a)
   \<and> rc_cwd (heap w1 a) = rc_cwd (heap w a)
   \<and> rc_displayTitle (heap w1 a) = rc_displayTitle (heap w a)"
  by (auto simp: setHgRepoInfo_resume_def answer_def setHgRepositoryDescription_def Let_def
      split: prod.splits sum.splits)

lemma emit_frame:
  "emit e ev this w = (r, w1) \<Longrightarrow>
     journal w1 = journal w @ [Emit ev this] \<and> heap w1 = heap w \<and> pending w1 = pending w"
  by (auto simp: emit_def call_def split: prod.splits)

lemma watch_frame:
  "watchRootProjectDirectory e this w = (r, w1) \<Longrightarrow>
     (\<exists>uri. journal w1 = journal w @ [WatchDirectoryRecursive (rc_connection (heap w this)) uri])
   \<and> heap w1 = heap w \<and> pending w1 = pending w"
  by (auto simp: watchRootProjectDirectory_def call_def Let_def split: prod.splits)

lemma start_frame:
  "journal (initialize_start this w) =
     journal w @ [AddConnection (rc_connection (heap w this)) this,
                  GetHgRepository (rc_connection (heap w this)) (rc_cwd (heap w this))]
   \<and> connections (reg (initialize_start this w)) (rc_connection (heap w this)) =
       connections (reg w) (rc_connection (heap w this)) @ [this]
   \<and> heap (initialize_start this w) = heap w
   \<and> pending (initialize_start this w) = pending w"
  by (simp add: initialize_start_def setHgRepoInfo_start_def perform_def addConnection_def
      getPathForInitialWorkingDirectory_def Let_def)

lemma catch_frame:
  "initialize_catch this err w = (r, w1) \<Longrightarrow>
     r = Inl err
   \<and> journal w1 = journal w @ [Log Info ''Received close command!'', Dispose this,
                               RemoveConnection (rc_connection (heap w this)) this False]
   \<and> pending w1 = pending w @ [ClosePending (rc_connection (heap w this)) this False]
   \<and> reg w1 = reg w \<and> heap w1 = heap w"
  by (auto simp: initialize_catch_def close_start_def perform_def Let_def)

text \<open>
  An initialisation that fails has got as far as the lookup, the emission or the watch,
  and hands the world it has reached to its \<open>catch\<close>.
\<close>

lemma initialize_resume_fails:
  assumes "fst (initialize_resume e this w) = Inl err"
  shows "\<exists>pre wk. journal wk = journal w @ pre
     \<and> (pre = [] \<or> pre = [Emit ''did-add'' this]
        \<or> (\<exists>uri. pre = [Emit ''did-add'' this, WatchDirectoryRecursive (rc_connection (heap w this)) uri]))
     \<and> rc_connection (heap wk this) = rc_connection (heap w this)
     \<and> pending wk = pending w
     \<and> initialize_resume e this w = initialize_catch this err wk"
proof -
  obtain r1 w1 where s1: "setHgRepoInfo_resume e this w = (r1, w1)"
    by (cases "setHgRepoInfo_resume e this w") blast
  note f1 = setHgRepoInfo_resume_frame[OF s1, of this]
  show ?thesis
  proof (cases r1)
    case (Inl x)
    with assms s1 have "initialize_resume e this w = initialize_catch this err w1"
      by (simp add: initialize_resume_def initialize_catch_def Let_def)
    with f1 show ?thesis by (intro exI[of _ "[]"] exI[of _ w1]) simp
  next
    case u1: (Inr u)
    obtain r2 w2 where s2: "emit e ''did-add'' this w1 = (r2, w2)"
      by (cases "emit e ''did-add'' this w1") blast
    note f2 = emit_frame[OF s2]
    show ?thesis
    proof (cases r2)
      case (Inl x)
      with assms s1 u1 s2 have "initialize_resume e this w = initialize_catch this err w2"
        by (simp add: initialize_resume_def initialize_catch_def Let_def)
      with f1 f2 show ?thesis by (intro exI[of _ "[Emit ''did-add'' this]"] exI[of _ w2]) simp
    next
      case u2: (Inr u')
      obtain r3 w3 where s3: "watchRootProjectDirectory e this w2 = (r3, w3)"
        by (cases "watchRootProjectDirectory e this w2") blast
      from watch_frame[OF s3] obtain uri where
        f3: "journal w3 = journal w2 @ [WatchDirectoryRecursive (rc_connection (heap w2 this)) uri]"
          "heap w3 = heap w2" "pending w3 = pending w2" by blast
      show ?thesis
      proof (cases r3)
        case (Inl x)
        with assms s1 u1 s2 u2 s3 have "initialize_resume e this w = initialize_catch this err w3"
          by (simp add: initialize_resume_def initialize_catch_def Let_def)
        with f1 f2 f3 show ?thesis
          by (intro exI[of _ "[Emit ''did-add'' this,
                WatchDirectoryRecursive (rc_connection (heap w this)) uri]"] exI[of _ w3]) simp
      next
        case (Inr u'')
        with assms s1 u1 s2 u2 s3 show ?thesis
          by (simp add: initialize_resume_def)
      qed
    qed
  qed
qed

text \<open>Resuming an initialisation changes no working directory, title or session.\<close>

lemma initialize_resume_fields:
  "initialize_resume e c w = (r, w') \<Longrightarrow>
     rc_cwd (heap w' a) = rc_cwd (heap w a)
   \<and> rc_displayTitle (heap w' a) = rc_displayTitle (heap w a)
   \<and> rc_connection (heap w' a) = rc_connection (heap w a)"
  unfolding initialize_resume_def
  by (auto split: prod.splits sum.splits
      dest!: setHgRepoInfo_resume_frame[where a = a] emit_frame watch_frame catch_frame)

lemma resumeAll_fields:
  "rc_cwd (heap (snd (resumeAll e cs w)) a) = rc_cwd (heap w a)
   \<and> rc_displayTitle (heap (snd (resumeAll e cs w)) a) = rc_displayTitle (heap w a)
   \<and> rc_connection (heap (snd (resumeAll e cs w)) a) = rc_connection (heap w a)"
proof (induction cs arbitrary: w)
  case Nil
  then show ?case by simp
next
  case (Cons c cs)
  obtain r w1 where r: "initialize_resume e c w = (r, w1)" by (cases "initialize_resume e c w") blast
  have "snd (resumeAll e (c # cs) w) = snd (resumeAll e cs w1)"
    by (simp add: r split: prod.splits)
  with initialize_resume_fields[OF r, of a] Cons.IH[of w1] show ?case by simp
qed

lemma parseProject_grows: "parseProject e raw w = (r, w') \<Longrightarrow> \<exists>js. journal w' = journal w @ js"
  by (auto simp: parseProject_def perform_def split: sum.splits if_splits)

lemma tryBlock_grows: "tryBlock e config s w = (r, w') \<Longrightarrow> \<exists>js. journal w' = journal w @ js"
  unfolding tryBlock_def
  by (auto split: prod.splits sum.splits option.splits if_splits
      dest!: call_frame readContents_frame parseProject_grows simp: Let_def)

lemma findOrCreate_grows: "\<exists>js. journal (snd (findOrCreate e config w)) = journal w @ GetOrCreate config # js"
proof -
  obtain r1 w1 where c1: "call (GetOrCreate config) (getOrCreate e config) w = (r1, w1)"
    by (cases "call (GetOrCreate config) (getOrCreate e config) w") blast
  note f1 = call_frame[OF c1]
  show ?thesis
  proof (cases r1)
    case (Inl err)
    with c1 have "findOrCreate e config w = (Inl err, w1)" by (simp add: findOrCreate_def)
    with f1 show ?thesis by simp
  next
    case (Inr s)
    with c1 have a: "call (GetOrCreate config) (getOrCreate e config) w = (Inr s, w1)" by simp
    obtain r2 w2 where t: "tryBlock e config s w1 = (r2, w2)"
      by (cases "tryBlock e config s w1") blast
    from tryBlock_grows[OF t] obtain js where js: "journal w2 = journal w1 @ js" by blast
    show ?thesis
    proof (cases r2)
      case (Inl err)
      with t have "findOrCreate e config w = (Inl err, catchBlock e s w2)"
        using findOrCreate_try_fails[OF a] by simp
      with f1 js show ?thesis by (simp add: catchBlock_def perform_def)
    next
      case (Inr res)
      show ?thesis
      proof (cases res)
        case (Existing c)
        with Inr t have "findOrCreate e config w = (Inr (Some c), w2)"
          by (simp add: findOrCreate_acquired[OF a])
        with f1 js show ?thesis by simp
      next
        case (Directories ds)
        with Inr t have "tryBlock e config s w1 = (Inr (Directories ds), w2)" by simp
        from findOrCreate_directories_journal[OF a this] f1 js show ?thesis by auto
      qed
    qed
  qed
qed

lemma createConnectionBySavedConfig_grows:
  "\<exists>js. journal (snd (createConnectionBySavedConfig e h dir title prompt w)) =
         journal w @ GetConnectionConfig h # js"
proof -
  obtain r1 w1 where c1: "call (GetConnectionConfig h) (getConnectionConfig e h) w = (r1, w1)"
    by (cases "call (GetConnectionConfig h) (getConnectionConfig e h) w") blast
  note f1 = call_frame[OF c1]
  show ?thesis
  proof (cases r1)
    case (Inl err)
    with c1 f1 show ?thesis by (simp add: createConnectionBySavedConfig_def)
  next
    case (Inr oc)
    show ?thesis
    proof (cases oc)
      case None
      with Inr c1 f1 show ?thesis by (simp add: createConnectionBySavedConfig_def)
    next
      case (Some cc)
      let ?config = "cc\<lparr>cwd := dir, displayTitle := title, promptReconnectOnFailure := Some prompt\<rparr>"
      from findOrCreate_grows[of e ?config w1] obtain js where
        js: "journal (snd (findOrCreate e ?config w1)) = journal w1 @ GetOrCreate ?config # js" by blast
      obtain r2 w2 where f: "findOrCreate e ?config w1 = (r2, w2)"
        by (cases "findOrCreate e ?config w1") blast
      with js have j2: "journal w2 = journal w1 @ GetOrCreate ?config # js" by simp
      from Some Inr c1 f f1 j2 show ?thesis
        by (cases r2) (auto simp: createConnectionBySavedConfig_def Let_def perform_def)
    qed
  qed
qed

lemma getByHostnameAndPath_perform:
  "getByHostnameAndPath h dir (perform a w) = getByHostnameAndPath h dir w"
  by (simp add: getByHostnameAndPath_def getPathForInitialWorkingDirectory_def perform_def)

text \<open>
  What \<open>_createConnectionBySavedConfig\<close> does with a failure of \<open>findOrCreate\<close>: an error
  whose code is \<open>ENOENT\<close> is tagged and raised again; a \<open>VersionMismatchError\<close> is logged
  as a warning, any other error as an error, and the result is \<open>null\<close>.
\<close>

lemma createConnectionBySavedConfig_classifies:
  assumes "call (GetConnectionConfig h) (getConnectionConfig e h) w = (Inr (Some cc), w1)"
    and "findOrCreate e (cc\<lparr>cwd := dir, displayTitle := title,
                            promptReconnectOnFailure := Some prompt\<rparr>) w1 = (Inl err, w2)"
  shows "createConnectionBySavedConfig e h dir title prompt w =
     (if code err = Some ''ENOENT''
      then (Inl (err\<lparr>sshHandshakeErrorType := Some ''DIRECTORY_NOT_FOUND''\<rparr>), w2)
      else (Inr None,
            w2\<lparr>journal := journal w2 @
               [Log (if name err = ''VersionMismatchError'' then Warn else Error)
                  (''Failed to reuse connectionConfiguration for '' @ h)]\<rparr>))"
  using assms by (simp add: createConnectionBySavedConfig_def Let_def perform_def)

section \<open>The claims\<close>

text \<open>
  Claim C1, as amended. When \<open>findOrCreate\<close> has acquired the session and fails inside
  its \<open>try\<close> block (the real-path resolution, the parse of the descriptor, the replacement
  of the editor's project: steps 2 to 4), it closes the session if and only if the
  session has no attached connection at that moment, and raises the original failure. When
  the \<open>try\<close> block has left a directory list, nothing \<open>findOrCreate\<close> does afterwards
  closes a session, and a failure it raises is the failure of one of the initialisations.
\<close>

theorem findOrCreate_failure_cleanup:
  assumes "call (GetOrCreate config) (getOrCreate e config) w = (Inr s, w1)"
  shows "(tryBlock e config s w1 = (Inl err, w2) \<longrightarrow>
            fst (findOrCreate e config w) = Inl err
          \<and> journal (snd (findOrCreate e config w)) =
              journal w2 @ (if connections (reg w2) s = [] then [CloseServer s] else [])
          \<and> (CloseServer s \<in> set (drop (length (journal w2)) (journal (snd (findOrCreate e config w))))
               \<longleftrightarrow> connections (reg w2) s = []))
       \<and> (tryBlock e config s w1 = (Inr (Directories ds), w2) \<longrightarrow>
            CloseServer s' \<notin> set (drop (length (journal w2)) (journal (snd (findOrCreate e config w))))
          \<and> (fst (findOrCreate e config w) = Inl err \<longrightarrow>
               Inl err \<in> set (fst (resumeAll e
                 (fst (startAll s (displayTitle config) (promptReconnectOnFailure config \<noteq> Some False) 0 ds w2))
                 (snd (startAll s (displayTitle config) (promptReconnectOnFailure config \<noteq> Some False) 0 ds w2))))))"
proof (intro conjI impI)
  assume t: "tryBlock e config s w1 = (Inl err, w2)"
  have f: "findOrCreate e config w = (Inl err, catchBlock e s w2)"
    by (rule findOrCreate_try_fails[OF assms t])
  show "fst (findOrCreate e config w) = Inl err" by (simp add: f)
  show j: "journal (snd (findOrCreate e config w)) =
      journal w2 @ (if connections (reg w2) s = [] then [CloseServer s] else [])"
    by (simp add: f catchBlock_def perform_def)
  show "CloseServer s \<in> set (drop (length (journal w2)) (journal (snd (findOrCreate e config w))))
      \<longleftrightarrow> connections (reg w2) s = []"
    by (simp add: j)
next
  assume t: "tryBlock e config s w1 = (Inr (Directories ds), w2)"
  from findOrCreate_directories_journal[OF assms t] obtain js where
    js: "journal (snd (findOrCreate e config w)) =
           journal w2 @ concat (map (startEntries s (displayTitle config)
               (promptReconnectOnFailure config \<noteq> Some False) (nextRef w2) 0 ds) [0..<length ds]) @ js"
      "list_all lifecycle js" by blast
  have a: "CloseServer s' \<notin> set js" by (rule lifecycle_not_close[OF js(2)])
  have b: "CloseServer s' \<notin> set (concat (map (startEntries s (displayTitle config)
               (promptReconnectOnFailure config \<noteq> Some False) (nextRef w2) 0 ds) [0..<length ds]))"
    by (rule startEntries_not_close)
  show "CloseServer s' \<notin> set (drop (length (journal w2)) (journal (snd (findOrCreate e config w))))"
    using a b by (simp add: js(1))
next
  assume t: "tryBlock e config s w1 = (Inr (Directories ds), w2)"
    and r: "fst (findOrCreate e config w) = Inl err"
  let ?st = "startAll s (displayTitle config) (promptReconnectOnFailure config \<noteq> Some False) 0 ds w2"
  from r have "promiseAll (fst (resumeAll e (fst ?st) (snd ?st))) = Inl err"
    by (simp add: findOrCreate_directories[OF assms t] Let_def split: sum.splits)
  then show "Inl err \<in> set (fst (resumeAll e (fst ?st) (snd ?st)))"
    by (rule promiseAll_Inl)
qed

text \<open>
  On the development host, \<open>/missing\<close> fails to resolve: the idle session is closed, the
  busy one is not, and the failure is the resolver's in both. Opening \<open>/data/nohg\<close> gets
  past the \<open>try\<close> block, and no session is closed after it.
\<close>

theorem findOrCreate_failure_cleanup_witness:
  "fst (findOrCreate devEnv (devConfig ''/missing'') idleWorld) = Inl enoent
   \<and> journal (snd (findOrCreate devEnv (devConfig ''/missing'') idleWorld)) =
       [GetOrCreate (devConfig ''/missing''), ResolveRealPath 0 ''/missing'', CloseServer 0]
   \<and> fst (findOrCreate devEnv (devConfig ''/missing'') busyWorld) = Inl enoent
   \<and> journal (snd (findOrCreate devEnv (devConfig ''/missing'') busyWorld)) =
       [GetOrCreate (devConfig ''/missing''), ResolveRealPath 0 ''/missing'']
   \<and> CloseServer 0 \<notin> set (drop 2 (journal (snd (findOrCreate devEnv (devConfig ''/data/nohg'') idleWorld))))"
proof -
  let ?c = "devConfig ''/missing''"
  let ?w1 = "idleWorld\<lparr>journal := [GetOrCreate ?c]\<rparr>"
  let ?w2 = "idleWorld\<lparr>journal := [GetOrCreate ?c, ResolveRealPath 0 ''/missing'']\<rparr>"
  have a: "call (GetOrCreate ?c) (getOrCreate devEnv ?c) idleWorld = (Inr 0, ?w1)"
    by (simp add: call_def devEnv_def idleWorld_def devConfig_def)
  have t: "tryBlock devEnv ?c 0 ?w1 = (Inl enoent, ?w2)"
    by (simp add: tryBlock_def call_def devEnv_def idleWorld_def devConfig_def)
  have z: "connections (reg ?w2) 0 = []"
    by (simp add: idleWorld_def devRegistry_def)
  let ?v1 = "busyWorld\<lparr>journal := [GetOrCreate ?c]\<rparr>"
  let ?v2 = "busyWorld\<lparr>journal := [GetOrCreate ?c, ResolveRealPath 0 ''/missing'']\<rparr>"
  have a': "call (GetOrCreate ?c) (getOrCreate devEnv ?c) busyWorld = (Inr 0, ?v1)"
    by (simp add: call_def devEnv_def busyWorld_def devConfig_def)
  have t': "tryBlock devEnv ?c 0 ?v1 = (Inl enoent, ?v2)"
    by (simp add: tryBlock_def call_def devEnv_def busyWorld_def devConfig_def)
  have z': "connections (reg ?v2) 0 \<noteq> []"
    by (simp add: busyWorld_def devRegistry_def)
  let ?d = "devConfig ''/data/nohg''"
  let ?u1 = "idleWorld\<lparr>journal := [GetOrCreate ?d]\<rparr>"
  let ?u2 = "idleWorld\<lparr>journal := [GetOrCreate ?d, ResolveRealPath 0 ''/data/nohg'']\<rparr>"
  have a'': "call (GetOrCreate ?d) (getOrCreate devEnv ?d) idleWorld = (Inr 0, ?u1)"
    by (simp add: call_def devEnv_def idleWorld_def devConfig_def)
  have t'': "tryBlock devEnv ?d 0 ?u1 = (Inr (Directories [''/data/nohg'']), ?u2)"
    by (simp add: tryBlock_def readContents_def hasAtomProjectFormat_def call_def devEnv_def
        idleWorld_def devConfig_def)
  from findOrCreate_failure_cleanup[OF a, where err = enoent and ?w2.0 = ?w2] t z
  have 1: "fst (findOrCreate devEnv ?c idleWorld) = Inl enoent"
    "journal (snd (findOrCreate devEnv ?c idleWorld)) = journal ?w2 @ [CloseServer 0]"
    by simp_all
  from findOrCreate_failure_cleanup[OF a', where err = enoent and ?w2.0 = ?v2] t' z'
  have 2: "fst (findOrCreate devEnv ?c busyWorld) = Inl enoent"
    "journal (snd (findOrCreate devEnv ?c busyWorld)) = journal ?v2"
    by simp_all
  from findOrCreate_failure_cleanup[OF a'', where ds = "[''/data/nohg'']" and ?w2.0 = ?u2 and s' = 0] t''
  have 3: "CloseServer 0 \<notin> set (drop (length (journal ?u2)) (journal (snd (findOrCreate devEnv ?d idleWorld))))"
    by blast
  from 1 2 3 show ?thesis by (simp add: numeral_2_eq_2)
qed

text \<open>
  Claim C1 as stated fails when the failure comes from a connection's initialisation
  (step 5): \<open>findOrCreate\<close> does not look at the session then. On the development host the
  source-control lookup for \<open>/data/nohg\<close> fails after the session was acquired:
  \<open>findOrCreate\<close> raises that failure while the detachment of the new connection is under
  way, and once the connection is detached the session is left with no attached
  connection and is not closed. When the connections of the session were closed by
  another task during the lookup, the session has no attached connection at the moment
  \<open>findOrCreate\<close> fails, and it is not closed either.
\<close>

theorem findOrCreate_initialize_failure_counterexample:
  "fst (call (GetOrCreate (devConfig ''/data/nohg'')) (getOrCreate devEnv (devConfig ''/data/nohg'')) idleWorld) = Inr 0
   \<and> fst (findOrCreate devEnv (devConfig ''/data/nohg'') idleWorld) = Inl typeError
   \<and> pending (snd (findOrCreate devEnv (devConfig ''/data/nohg'') idleWorld)) = [ClosePending 0 3 False]
   \<and> connections (reg (settle devEnv (snd (findOrCreate devEnv (devConfig ''/data/nohg'') idleWorld)))) 0 = []
   \<and> CloseServer 0 \<notin> set (journal (settle devEnv (snd (findOrCreate devEnv (devConfig ''/data/nohg'') idleWorld))))
   \<and> fst (call (GetOrCreate (devConfig ''/data'')) (getOrCreate raceEnv (devConfig ''/data'')) idleWorld) = Inr 0
   \<and> fst (findOrCreate raceEnv (devConfig ''/data'') idleWorld) = Inl typeError
   \<and> connections (reg (snd (findOrCreate raceEnv (devConfig ''/data'') idleWorld))) 0 = []
   \<and> CloseServer 0 \<notin> set (journal (snd (findOrCreate raceEnv (devConfig ''/data'') idleWorld)))"
  by (simp add: model_defs fixture_defs raceEnv_def)

text \<open>
  Claim C2, as amended. \<open>close(shutdownIfLast)\<close> logs, disposes the subscriptions and
  asks the session to detach the connection. When the detachment returns, it emits
  exactly one \<open>did-close\<close> notification, as its last action, and its outcome is the
  outcome of the delivery. When the detachment raises, that failure is the outcome of
  \<open>close\<close>, the registry is as the detachment left it, and no notification is emitted.
\<close>

theorem close_emits_after_detach:
  "(removeConnection e (rc_connection (heap w this)) this shutdownIfLast (reg w) = (Inr u, g) \<longrightarrow>
      journal (snd (close e this shutdownIfLast w)) =
        journal w @ [Log Info ''Received close command!'', Dispose this,
                     RemoveConnection (rc_connection (heap w this)) this shutdownIfLast,
                     Emit ''did-close'' this]
      \<and> fst (close e this shutdownIfLast w) = fst (deliver e ''did-close'' this g)
      \<and> reg (snd (close e this shutdownIfLast w)) = snd (deliver e ''did-close'' this g))
   \<and> (removeConnection e (rc_connection (heap w this)) this shutdownIfLast (reg w) = (Inl err, g) \<longrightarrow>
      fst (close e this shutdownIfLast w) = Inl err
      \<and> journal (snd (close e this shutdownIfLast w)) =
        journal w @ [Log Info ''Received close command!'', Dispose this,
                     RemoveConnection (rc_connection (heap w this)) this shutdownIfLast]
      \<and> reg (snd (close e this shutdownIfLast w)) = g)"
  by (auto simp: close_def close_start_def close_resume_def answer_def emit_def call_def
      perform_def Let_def split: prod.splits sum.splits)

text \<open>
  On the development host: closing the second connection of the busy session detaches it
  and emits \<open>did-close\<close> once; with a session whose \<open>removeConnection\<close> raises, \<open>close\<close>
  raises the same failure after the detachment request and emits nothing.
\<close>

theorem close_emits_after_detach_witness:
  "journal (snd (close devEnv 1 True busyWorld)) =
     [Log Info ''Received close command!'', Dispose 1, RemoveConnection 0 1 True, Emit ''did-close'' 1]
   \<and> fst (close devEnv 1 True busyWorld) = Inr ()
   \<and> connections (reg (snd (close devEnv 1 True busyWorld))) 0 = [0, 2]
   \<and> fst (close stuckEnv 1 True busyWorld) = Inl typeError
   \<and> journal (snd (close stuckEnv 1 True busyWorld)) =
     [Log Info ''Received close command!'', Dispose 1, RemoveConnection 0 1 True]"
proof -
  let ?g = "(devRegistry [0, 1, 2])\<lparr>connections := (connections (devRegistry [0, 1, 2]))(0 := [0, 2])\<rparr>"
  have h: "rc_connection (heap busyWorld 1) = 0"
    by (simp add: busyWorld_def devHeap_def)
  have a: "removeConnection devEnv (rc_connection (heap busyWorld 1)) 1 True (reg busyWorld) = (Inr (), ?g)"
    by (simp add: devEnv_def detach_def busyWorld_def devRegistry_def devHeap_def)
  have d: "deliver devEnv ''did-close'' 1 ?g = (Inr (), ?g)"
    by (simp add: devEnv_def)
  have b: "removeConnection stuckEnv (rc_connection (heap busyWorld 1)) 1 True (reg busyWorld)
      = (Inl typeError, reg busyWorld)"
    by (simp add: stuckEnv_def devEnv_def)
  from close_emits_after_detach[where e = devEnv and w = busyWorld and this = 1
      and shutdownIfLast = True and u = "()" and g = ?g] a d h
  have 1: "journal (snd (close devEnv 1 True busyWorld)) =
     journal busyWorld @ [Log Info ''Received close command!'', Dispose 1, RemoveConnection 0 1 True, Emit ''did-close'' 1]"
    "fst (close devEnv 1 True busyWorld) = Inr ()"
    "reg (snd (close devEnv 1 True busyWorld)) = ?g"
    by simp_all
  from close_emits_after_detach[where e = stuckEnv and w = busyWorld and this = 1
      and shutdownIfLast = True and err = typeError and g = "reg busyWorld"] b h
  have 2: "fst (close stuckEnv 1 True busyWorld) = Inl typeError"
    "journal (snd (close stuckEnv 1 True busyWorld)) =
     journal busyWorld @ [Log Info ''Received close command!'', Dispose 1, RemoveConnection 0 1 True]"
    by simp_all
  from 1 2 show ?thesis by (simp add: busyWorld_def)
qed

text \<open>
  Claim C2 as stated fails when the detachment raises: \<open>close\<close> raises and the journal
  holds no \<open>did-close\<close> emission; the connection is still on the session's list.
\<close>

theorem close_detach_raises_counterexample:
  "fst (removeConnection stuckEnv (rc_connection (heap busyWorld 1)) 1 True (reg busyWorld)) = Inl typeError
   \<and> fst (close stuckEnv 1 True busyWorld) = Inl typeError
   \<and> Emit ''did-close'' 1 \<notin> set (journal (snd (close stuckEnv 1 True busyWorld)))
   \<and> connections (reg (snd (close stuckEnv 1 True busyWorld))) 0 = [0, 1, 2]"
  by (simp add: model_defs fixture_defs stuckEnv_def)

text \<open>
  Claim C3, as amended. When \<open>_createConnectionBySavedConfig\<close> has found a saved
  configuration and \<open>findOrCreate\<close> fails, an error whose code is \<open>ENOENT\<close> is tagged
  \<open>DIRECTORY_NOT_FOUND\<close> and raised again, and \<open>reconnect\<close> raises it too when it made
  the attempt under the hostname it was given; a \<open>VersionMismatchError\<close> is logged as a
  warning, any other error as an error, and the result is \<open>null\<close>.
\<close>

theorem savedConfig_failure_classified:
  assumes "call (GetConnectionConfig h) (getConnectionConfig e h) w0 = (Inr (Some cc), w1)"
    and "findOrCreate e (cc\<lparr>cwd := dir, displayTitle := title,
                            promptReconnectOnFailure := Some prompt\<rparr>) w1 = (Inl err, w2)"
    and "w0 = perform (Log Info ''Attempting to reconnect'') w"
  shows "(code err = Some ''ENOENT'' \<longrightarrow>
            createConnectionBySavedConfig e h dir title prompt w0 =
              (Inl (err\<lparr>sshHandshakeErrorType := Some ''DIRECTORY_NOT_FOUND''\<rparr>), w2)
          \<and> (hasAtomProjectFormat e dir \<or> getByHostnameAndPath h dir w = None \<longrightarrow>
                reconnect e h dir title prompt w =
                  (Inl (err\<lparr>sshHandshakeErrorType := Some ''DIRECTORY_NOT_FOUND''\<rparr>), w2)))
       \<and> (code err \<noteq> Some ''ENOENT'' \<and> name err = ''VersionMismatchError'' \<longrightarrow>
            createConnectionBySavedConfig e h dir title prompt w0 =
              (Inr None, w2\<lparr>journal := journal w2 @
                 [Log Warn (''Failed to reuse connectionConfiguration for '' @ h)]\<rparr>))
       \<and> (code err \<noteq> Some ''ENOENT'' \<and> name err \<noteq> ''VersionMismatchError'' \<longrightarrow>
            createConnectionBySavedConfig e h dir title prompt w0 =
              (Inr None, w2\<lparr>journal := journal w2 @
                 [Log Error (''Failed to reuse connectionConfiguration for '' @ h)]\<rparr>))"
proof -
  note c = createConnectionBySavedConfig_classifies[OF assms(1,2)]
  have r: "hasAtomProjectFormat e dir \<or> getByHostnameAndPath h dir w = None \<Longrightarrow>
      code err = Some ''ENOENT'' \<Longrightarrow>
      reconnect e h dir title prompt w =
        (Inl (err\<lparr>sshHandshakeErrorType := Some ''DIRECTORY_NOT_FOUND''\<rparr>), w2)"
  proof -
    assume o: "hasAtomProjectFormat e dir \<or> getByHostnameAndPath h dir w = None"
      and n: "code err = Some ''ENOENT''"
    from o have "(if \<not> hasAtomProjectFormat e dir then getByHostnameAndPath h dir w0 else None) = None"
      by (auto simp: assms(3) getByHostnameAndPath_perform)
    then show ?thesis
      unfolding reconnect_def Let_def assms(3)[symmetric] by (simp add: c n)
  qed
  from c r show ?thesis by simp
qed

text \<open>
  On the development host, from the saved configuration filed under \<open>10.0.0.1\<close>: the
  missing directory gives the tagged error, from \<open>_createConnectionBySavedConfig\<close> and
  from \<open>reconnect\<close> called with that address as its host; the parse failure of
  \<open>/proj/bad.json\<close> is logged as an error and gives \<open>null\<close>. From the one filed under
  \<open>10.0.0.2\<close>: the version mismatch is logged as a warning and gives \<open>null\<close>.
\<close>

theorem savedConfig_failure_classified_witness:
  "fst (createConnectionBySavedConfig devEnv ''10.0.0.1'' ''/missing'' ''t'' True
          (perform (Log Info ''Attempting to reconnect'') idleWorld)) =
     Inl (enoent\<lparr>sshHandshakeErrorType := Some ''DIRECTORY_NOT_FOUND''\<rparr>)
   \<and> fst (reconnect devEnv ''10.0.0.1'' ''/missing'' ''t'' True idleWorld) =
     Inl (enoent\<lparr>sshHandshakeErrorType := Some ''DIRECTORY_NOT_FOUND''\<rparr>)
   \<and> fst (createConnectionBySavedConfig devEnv ''10.0.0.2'' ''/home/x'' ''t'' True
          (perform (Log Info ''Attempting to reconnect'') idleWorld)) = Inr None
   \<and> last (journal (snd (createConnectionBySavedConfig devEnv ''10.0.0.2'' ''/home/x'' ''t'' True
          (perform (Log Info ''Attempting to reconnect'') idleWorld)))) =
     Log Warn ''Failed to reuse connectionConfiguration for 10.0.0.2''
   \<and> fst (createConnectionBySavedConfig devEnv ''10.0.0.1'' ''/proj/bad.json'' ''t'' True
          (perform (Log Info ''Attempting to reconnect'') idleWorld)) = Inr None
   \<and> last (journal (snd (createConnectionBySavedConfig devEnv ''10.0.0.1'' ''/proj/bad.json'' ''t'' True
          (perform (Log Info ''Attempting to reconnect'') idleWorld)))) =
     Log Error ''Failed to reuse connectionConfiguration for 10.0.0.1''"
proof -
  let ?w0 = "perform (Log Info ''Attempting to reconnect'') idleWorld"
  let ?w1 = "\<lambda>h. snd (call (GetConnectionConfig h) (getConnectionConfig devEnv h) ?w0)"
  let ?cfg = "\<lambda>cc dir. cc\<lparr>cwd := dir, displayTitle := ''t'', promptReconnectOnFailure := Some True\<rparr>"
  have a1: "call (GetConnectionConfig ''10.0.0.1'') (getConnectionConfig devEnv ''10.0.0.1'') ?w0
      = (Inr (Some savedConfig), ?w1 ''10.0.0.1'')"
    by (simp add: call_def devEnv_def prod_eq_iff)
  have a2: "call (GetConnectionConfig ''10.0.0.2'') (getConnectionConfig devEnv ''10.0.0.2'') ?w0
      = (Inr (Some oldConfig), ?w1 ''10.0.0.2'')"
    by (simp add: call_def devEnv_def prod_eq_iff)
  let ?m = "snd (findOrCreate devEnv (?cfg savedConfig ''/missing'') (?w1 ''10.0.0.1''))"
  have "fst (findOrCreate devEnv (?cfg savedConfig ''/missing'') (?w1 ''10.0.0.1'')) = Inl enoent"
    by (simp add: model_defs fixture_defs)
  then have f1: "findOrCreate devEnv (?cfg savedConfig ''/missing'') (?w1 ''10.0.0.1'') = (Inl enoent, ?m)"
    by (simp add: prod_eq_iff)
  let ?v = "snd (findOrCreate devEnv (?cfg oldConfig ''/home/x'') (?w1 ''10.0.0.2''))"
  have "fst (findOrCreate devEnv (?cfg oldConfig ''/home/x'') (?w1 ''10.0.0.2'')) = Inl versionMismatch"
    by (simp add: model_defs fixture_defs)
  then have f2: "findOrCreate devEnv (?cfg oldConfig ''/home/x'') (?w1 ''10.0.0.2'') = (Inl versionMismatch, ?v)"
    by (simp add: prod_eq_iff)
  let ?b = "snd (findOrCreate devEnv (?cfg savedConfig ''/proj/bad.json'') (?w1 ''10.0.0.1''))"
  have "fst (findOrCreate devEnv (?cfg savedConfig ''/proj/bad.json'') (?w1 ''10.0.0.1'')) = Inl typeError"
    by (simp add: model_defs fixture_defs)
  then have f3: "findOrCreate devEnv (?cfg savedConfig ''/proj/bad.json'') (?w1 ''10.0.0.1'') = (Inl typeError, ?b)"
    by (simp add: prod_eq_iff)
  have n: "getByHostnameAndPath ''10.0.0.1'' ''/missing'' idleWorld = None"
    by (simp add: getByHostnameAndPath_def getByHostname_def fixture_defs)
  have k: "code enoent = Some ''ENOENT''"
    "code versionMismatch \<noteq> Some ''ENOENT'' \<and> name versionMismatch = ''VersionMismatchError''"
    "code typeError \<noteq> Some ''ENOENT'' \<and> name typeError \<noteq> ''VersionMismatchError''"
    by (simp_all add: enoent_def versionMismatch_def typeError_def)
  from savedConfig_failure_classified[OF a1 f1 refl] k(1) n
  have 1: "createConnectionBySavedConfig devEnv ''10.0.0.1'' ''/missing'' ''t'' True ?w0 =
      (Inl (enoent\<lparr>sshHandshakeErrorType := Some ''DIRECTORY_NOT_FOUND''\<rparr>), ?m)"
    "reconnect devEnv ''10.0.0.1'' ''/missing'' ''t'' True idleWorld =
      (Inl (enoent\<lparr>sshHandshakeErrorType := Some ''DIRECTORY_NOT_FOUND''\<rparr>), ?m)"
    by blast+
  from savedConfig_failure_classified[OF a2 f2 refl] k(2)
  have 2: "createConnectionBySavedConfig devEnv ''10.0.0.2'' ''/home/x'' ''t'' True ?w0 =
      (Inr None, ?v\<lparr>journal := journal ?v @
         [Log Warn (''Failed to reuse connectionConfiguration for '' @ ''10.0.0.2'')]\<rparr>)"
    by blast
  from savedConfig_failure_classified[OF a1 f3 refl] k(3)
  have 3: "createConnectionBySavedConfig devEnv ''10.0.0.1'' ''/proj/bad.json'' ''t'' True ?w0 =
      (Inr None, ?b\<lparr>journal := journal ?b @
         [Log Error (''Failed to reuse connectionConfiguration for '' @ ''10.0.0.1'')]\<rparr>)"
    by blast
  show ?thesis unfolding 1 2 3 by simp
qed

text \<open>
  Claim C3 as stated fails for the attempt \<open>reconnect\<close> makes under the resolved address.
  The saved configuration is filed under the address of \<open>dev\<close>, and the directory
  \<open>/missing\<close> does not exist. Called with the address, \<open>_createConnectionBySavedConfig\<close>
  raises the \<open>ENOENT\<close> failure tagged \<open>DIRECTORY_NOT_FOUND\<close>. Called through \<open>reconnect\<close>
  with the hostname, the same failure arises in the attempt by address, inside the \<open>try\<close>
  whose \<open>catch\<close> is empty, and \<open>reconnect\<close> returns \<open>null\<close>.
\<close>

theorem reconnect_by_address_swallows_counterexample:
  "fst (createConnectionBySavedConfig devEnv ''10.0.0.1'' ''/missing'' ''t'' True idleWorld) =
     Inl (enoent\<lparr>sshHandshakeErrorType := Some ''DIRECTORY_NOT_FOUND''\<rparr>)
   \<and> fst (reconnect devEnv ''dev'' ''/missing'' ''t'' True idleWorld) = Inr None
   \<and> journal (snd (reconnect devEnv ''dev'' ''/missing'' ''t'' True idleWorld)) =
       [Log Info ''Attempting to reconnect'', GetConnectionConfig ''dev'', LookupPreferIpv6 ''dev'',
        GetConnectionConfig ''10.0.0.1'',
        GetOrCreate (savedConfig\<lparr>cwd := ''/missing'', displayTitle := ''t'',
                                   promptReconnectOnFailure := Some True\<rparr>),
        ResolveRealPath 0 ''/missing'', CloseServer 0]"
  by (simp add: model_defs fixture_defs)

text \<open>
  Claim C4, as amended. When the real path of \<open>config.cwd\<close> is not a readable project
  descriptor (no project extension, or the read failed), differs from \<open>config.cwd\<close>,
  \<open>config.cwd\<close> is a remote URI, and \<open>getByHostnameAndPath\<close> finds a connection for the
  hostname of \<open>config.cwd\<close> and the real path, \<open>findOrCreate\<close> returns that connection
  at once: the only calls it made are the session lookup, the path resolution and, for a
  project extension, the read; no object was allocated.
\<close>

theorem findOrCreate_returns_existing:
  assumes "call (GetOrCreate config) (getOrCreate e config) w = (Inr s, w1)"
    and "call (ResolveRealPath s (cwd config)) (resolveRealPath e s (cwd config)) w1 = (Inr realPath, w2)"
    and "readContents e s realPath w2 = (None, w3)"
    and "realPath \<noteq> cwd config" and "isRemote e (cwd config)"
    and "getByHostnameAndPath (getHostname e (cwd config)) realPath w3 = Some c"
  shows "findOrCreate e config w = (Inr (Some c), w3)
    \<and> journal w3 = journal w @ GetOrCreate config # ResolveRealPath s (cwd config) #
        (if hasAtomProjectFormat e realPath then [ReadFile s realPath] else [])
    \<and> nextRef w3 = nextRef w \<and> heap w3 = heap w"
proof -
  have t: "tryBlock e config s w1 = (Inr (Existing c), w3)"
    by (rule tryBlock_existing[OF assms(2-6)])
  have f: "findOrCreate e config w = (Inr (Some c), w3)"
    by (simp add: findOrCreate_acquired[OF assms(1)] t)
  from call_frame[OF assms(1)] call_frame[OF assms(2)] readContents_frame[OF assms(3)] f
  show ?thesis by simp
qed

text \<open>
  On the development host \<open>nuclide://dev/link\<close> resolves to \<open>/data/foo\<close>, where the first
  connection of the busy session is rooted: it is returned after two calls.
\<close>

theorem findOrCreate_returns_existing_witness:
  "findOrCreate devEnv (devConfig ''nuclide://dev/link'') busyWorld =
     (Inr (Some 0),
      busyWorld\<lparr>journal := [GetOrCreate (devConfig ''nuclide://dev/link''),
                              ResolveRealPath 0 ''nuclide://dev/link'']\<rparr>)"
proof -
  let ?c = "devConfig ''nuclide://dev/link''"
  let ?w1 = "busyWorld\<lparr>journal := [GetOrCreate ?c]\<rparr>"
  let ?w2 = "busyWorld\<lparr>journal := [GetOrCreate ?c, ResolveRealPath 0 ''nuclide://dev/link'']\<rparr>"
  have a: "call (GetOrCreate ?c) (getOrCreate devEnv ?c) busyWorld = (Inr 0, ?w1)"
    by (simp add: call_def devEnv_def busyWorld_def devConfig_def)
  have b: "call (ResolveRealPath 0 (cwd ?c)) (resolveRealPath devEnv 0 (cwd ?c)) ?w1 = (Inr ''/data/foo'', ?w2)"
    by (simp add: call_def devEnv_def busyWorld_def devConfig_def)
  have c: "readContents devEnv 0 ''/data/foo'' ?w2 = (None, ?w2)"
    by (simp add: readContents_def hasAtomProjectFormat_def devEnv_def)
  have d: "''/data/foo'' \<noteq> cwd ?c" "isRemote devEnv (cwd ?c)"
    by (simp_all add: devConfig_def devEnv_def)
  have g: "getByHostnameAndPath (getHostname devEnv (cwd ?c)) ''/data/foo'' ?w2 = Some 0"
    by (simp add: getByHostnameAndPath_def getByHostname_def getPathForInitialWorkingDirectory_def
        fixture_defs)
  from findOrCreate_returns_existing[OF a b c d g] show ?thesis by blast
qed

text \<open>
  Claim C4 as stated fails when the real path is a readable project descriptor. On the
  development host \<open>nuclide://dev/project\<close> resolves to \<open>/proj/app.json\<close>, which differs
  from it; the third connection of the busy session is registered for the host \<open>dev\<close>
  with exactly this path as its working directory; and \<open>findOrCreate\<close> does not return
  it: it constructs a new connection for \<open>/proj/a\<close> and returns that one.
\<close>

theorem findOrCreate_descriptor_not_deduplicated_counterexample:
  "fst (resolveRealPath devEnv 0 (cwd (devConfig ''nuclide://dev/project'')) (reg busyWorld))
     = Inr ''/proj/app.json''
   \<and> ''/proj/app.json'' \<noteq> cwd (devConfig ''nuclide://dev/project'')
   \<and> isRemote devEnv (cwd (devConfig ''nuclide://dev/project''))
   \<and> getHostname devEnv (cwd (devConfig ''nuclide://dev/project'')) = ''dev''
   \<and> getByHostnameAndPath ''dev'' ''/proj/app.json'' busyWorld = Some 2
   \<and> rc_cwd (heap busyWorld 2) = ''/proj/app.json''
   \<and> fst (findOrCreate devEnv (devConfig ''nuclide://dev/project'') busyWorld) = Inr (Some 3)
   \<and> Construct 3 (newConnection 0 ''/proj/a'' ''My project'' True)
       \<in> set (journal (snd (findOrCreate devEnv (devConfig ''nuclide://dev/project'') busyWorld)))"
  by (simp add: model_defs fixture_defs)

text \<open>
  Claim C5. When the real path is a project descriptor that was read and parsed, and the
  \<open>try\<close> block completes, the resolved directories are the listed paths, each resolved
  against the descriptor's parent directory, or that parent directory alone when the
  parsed contents have no array of paths. One connection is constructed per directory, in
  order, at consecutive addresses, and each is attached to the session and asks for its
  source-control description as soon as it is constructed, before the next one is. The
  working directory of the connection of index \<open>k\<close> is the directory of index \<open>k\<close>; the
  one of index 0 carries \<open>config.displayTitle\<close>, every other one the empty title; and so
  they are when \<open>findOrCreate\<close> is over, attached after the connections the session had.
  Unless an initialisation fails, \<open>findOrCreate\<close> returns the connection of index 0
  (\<open>undefined\<close> for an empty list).
\<close>

theorem findOrCreate_project_directories:
  assumes "call (GetOrCreate config) (getOrCreate e config) w = (Inr s, w1)"
    and "call (ResolveRealPath s (cwd config)) (resolveRealPath e s (cwd config)) w1 = (Inr realPath, w2)"
    and "readContents e s realPath w2 = (Some raw, w3)"
    and "parseProject e raw w3 = (Inr pc, w4)"
    and "tryBlock e config s w1 = (Inr r, w5)"
    and "ds = (case paths pc of
                 PathsArray ps \<Rightarrow> map (resolve e (dirname e realPath)) ps
               | _ \<Rightarrow> [dirname e realPath])"
    and "prompt = (promptReconnectOnFailure config \<noteq> Some False)"
  shows "r = Directories ds
    \<and> fst (startAll s (displayTitle config) prompt 0 ds w5) = map (\<lambda>k. nextRef w + k) [0..<length ds]
    \<and> connections (reg (snd (startAll s (displayTitle config) prompt 0 ds w5))) s =
        connections (reg w5) s @ map (\<lambda>k. nextRef w + k) [0..<length ds]
    \<and> (\<exists>js. journal (snd (findOrCreate e config w)) =
               journal w5 @ concat (map (\<lambda>k.
                   [Construct (nextRef w + k)
                      \<lparr>rc_cwd = ds ! k, rc_hgRepositoryDescription = None, rc_connection = s,
                       rc_displayTitle = (if k = 0 then displayTitle config else ''''),
                       rc_alwaysShutdownIfLast = False, rc_promptReconnectOnFailure = prompt\<rparr>,
                    AddConnection s (nextRef w + k),
                    GetHgRepository s (ds ! k)]) [0..<length ds]) @ js
             \<and> list_all lifecycle js)
    \<and> (\<forall>k<length ds.
          rc_cwd (heap (snd (findOrCreate e config w)) (nextRef w + k)) = ds ! k
        \<and> rc_displayTitle (heap (snd (findOrCreate e config w)) (nextRef w + k)) =
            (if k = 0 then displayTitle config else '''')
        \<and> rc_connection (heap (snd (findOrCreate e config w)) (nextRef w + k)) = s)
    \<and> fst (findOrCreate e config w) =
        (case promiseAll (fst (resumeAll e (map (\<lambda>k. nextRef w + k) [0..<length ds])
                                 (snd (startAll s (displayTitle config) prompt 0 ds w5)))) of
           Inl err \<Rightarrow> Inl err
         | Inr _ \<Rightarrow> Inr (if ds = [] then None else Some (nextRef w)))"
proof -
  have r: "r = Directories ds"
    using tryBlock_descriptor[OF assms(2-5)] assms(6) by simp
  have t: "tryBlock e config s w1 = (Inr (Directories ds), w5)"
    using assms(5) r by simp
  have n: "nextRef w5 = nextRef w"
    using call_frame[OF assms(1)] tryBlock_frame[OF assms(5)] by simp
  let ?st = "startAll s (displayTitle config) prompt 0 ds w5"
  note eff = startAll_effect[of s "displayTitle config" prompt 0 ds w5]
  have st: "fst ?st = map (\<lambda>k. nextRef w + k) [0..<length ds]"
    using eff n by simp
  have cs: "connections (reg (snd ?st)) s =
      connections (reg w5) s @ map (\<lambda>k. nextRef w + k) [0..<length ds]"
    using eff n by simp
  have se: "startEntries s (displayTitle config) prompt (nextRef w) 0 ds =
      (\<lambda>k. [Construct (nextRef w + k)
                \<lparr>rc_cwd = ds ! k, rc_hgRepositoryDescription = None, rc_connection = s,
                 rc_displayTitle = (if k = 0 then displayTitle config else ''''),
                 rc_alwaysShutdownIfLast = False, rc_promptReconnectOnFailure = prompt\<rparr>,
              AddConnection s (nextRef w + k),
              GetHgRepository s (ds ! k)])"
    by (rule ext) (simp add: startEntries_def newConnection_def)
  have j: "\<exists>js. journal (snd (findOrCreate e config w)) =
               journal w5 @ concat (map (\<lambda>k.
                   [Construct (nextRef w + k)
                      \<lparr>rc_cwd = ds ! k, rc_hgRepositoryDescription = None, rc_connection = s,
                       rc_displayTitle = (if k = 0 then displayTitle config else ''''),
                       rc_alwaysShutdownIfLast = False, rc_promptReconnectOnFailure = prompt\<rparr>,
                    AddConnection s (nextRef w + k),
                    GetHgRepository s (ds ! k)]) [0..<length ds]) @ js
             \<and> list_all lifecycle js"
    using findOrCreate_directories_journal[OF assms(1) t] unfolding n assms(7)[symmetric] se .
  let ?rs = "resumeAll e (fst ?st) (snd ?st)"
  have w': "snd (findOrCreate e config w) = snd ?rs"
    by (simp add: findOrCreate_directories[OF assms(1) t] Let_def assms(7))
  have h: "\<forall>k<length ds.
          rc_cwd (heap (snd (findOrCreate e config w)) (nextRef w + k)) = ds ! k
        \<and> rc_displayTitle (heap (snd (findOrCreate e config w)) (nextRef w + k)) =
            (if k = 0 then displayTitle config else '''')
        \<and> rc_connection (heap (snd (findOrCreate e config w)) (nextRef w + k)) = s"
  proof (intro allI impI)
    fix k assume k: "k < length ds"
    from startAll_heap[OF k, of s "displayTitle config" prompt 0 w5] n
    have "heap (snd ?st) (nextRef w + k) =
        newConnection s (ds ! k) (if k = 0 then displayTitle config else '''') prompt"
      by simp
    with resumeAll_fields[of e "fst ?st" "snd ?st" "nextRef w + k"]
    show "rc_cwd (heap (snd (findOrCreate e config w)) (nextRef w + k)) = ds ! k
        \<and> rc_displayTitle (heap (snd (findOrCreate e config w)) (nextRef w + k)) =
            (if k = 0 then displayTitle config else '''')
        \<and> rc_connection (heap (snd (findOrCreate e config w)) (nextRef w + k)) = s"
      unfolding w' by (simp add: newConnection_def)
  qed
  have f: "fst (findOrCreate e config w) =
      (case promiseAll (fst ?rs) of Inl err \<Rightarrow> Inl err | Inr conns \<Rightarrow> Inr (first conns))"
    by (simp add: findOrCreate_directories[OF assms(1) t] Let_def assms(7))
  have v: "fst (findOrCreate e config w) =
      (case promiseAll (fst ?rs) of Inl err \<Rightarrow> Inl err
       | Inr _ \<Rightarrow> Inr (if ds = [] then None else Some (nextRef w)))"
  proof (cases "promiseAll (fst ?rs)")
    case (Inl err)
    then show ?thesis by (simp add: f)
  next
    case (Inr conns)
    from promiseAll_resumeAll[OF Inr] st have c: "conns = map (\<lambda>k. nextRef w + k) [0..<length ds]"
      by simp
    have "first conns = (if ds = [] then None else Some (nextRef w))"
      unfolding c by (cases ds) (simp_all add: first_def upt_0_Suc del: upt_Suc)
    with Inr show ?thesis by (simp add: f)
  qed
  from r st cs j h v show ?thesis by (simp only: st)
qed

text \<open>
  The example of the spec: \<open>/proj/app.json\<close> lists \<open>a\<close> and \<open>b\<close>, and is opened on a
  session that has three connections. Two connections are constructed, for \<open>/proj/a\<close>
  with the caller's title and for \<open>/proj/b\<close> with the empty one; each is attached and
  asks for its source-control description before the next is constructed; both emit
  \<open>did-add\<close>; the first is returned. For \<open>/proj/plain.json\<close>, which lists nothing, the
  one connection is rooted at \<open>/proj\<close>.
\<close>

theorem findOrCreate_project_directories_witness:
  "fst (findOrCreate devEnv (devConfig ''/proj/app.json'') busyWorld) = Inr (Some 3)
   \<and> journal (snd (findOrCreate devEnv (devConfig ''/proj/app.json'') busyWorld)) =
         [GetOrCreate (devConfig ''/proj/app.json''), ResolveRealPath 0 ''/proj/app.json'',
          ReadFile 0 ''/proj/app.json'', TomlParse ''paths = [a, b]'',
          Construct 3 \<lparr>rc_cwd = ''/proj/a'', rc_hgRepositoryDescription = None, rc_connection = 0,
                       rc_displayTitle = ''My project'', rc_alwaysShutdownIfLast = False,
                       rc_promptReconnectOnFailure = True\<rparr>,
          AddConnection 0 3, GetHgRepository 0 ''/proj/a'',
          Construct 4 \<lparr>rc_cwd = ''/proj/b'', rc_hgRepositoryDescription = None, rc_connection = 0,
                       rc_displayTitle = '''', rc_alwaysShutdownIfLast = False,
                       rc_promptReconnectOnFailure = True\<rparr>,
          AddConnection 0 4, GetHgRepository 0 ''/proj/b'',
          Emit ''did-add'' 3, WatchDirectoryRecursive 0 ''nuclide://dev/proj/a'',
          Emit ''did-add'' 4, WatchDirectoryRecursive 0 ''nuclide://dev/proj/b'']
   \<and> rc_cwd (heap (snd (findOrCreate devEnv (devConfig ''/proj/app.json'') busyWorld)) 3) = ''/proj/a''
   \<and> rc_displayTitle (heap (snd (findOrCreate devEnv (devConfig ''/proj/app.json'') busyWorld)) 3) = ''My project''
   \<and> rc_cwd (heap (snd (findOrCreate devEnv (devConfig ''/proj/app.json'') busyWorld)) 4) = ''/proj/b''
   \<and> rc_displayTitle (heap (snd (findOrCreate devEnv (devConfig ''/proj/app.json'') busyWorld)) 4) = ''''
   \<and> connections (reg (snd (findOrCreate devEnv (devConfig ''/proj/app.json'') busyWorld))) 0 = [0, 1, 2, 3, 4]
   \<and> fst (findOrCreate devEnv (devConfig ''/proj/plain.json'') idleWorld) = Inr (Some 3)
   \<and> rc_cwd (heap (snd (findOrCreate devEnv (devConfig ''/proj/plain.json'') idleWorld)) 3) = ''/proj''
   \<and> rc_displayTitle (heap (snd (findOrCreate devEnv (devConfig ''/proj/plain.json'') idleWorld)) 3) = ''My project''
   \<and> connections (reg (snd (findOrCreate devEnv (devConfig ''/proj/plain.json'') idleWorld))) 0 = [3]"
proof -
  let ?c = "devConfig ''/proj/app.json''"
  let ?w1 = "busyWorld\<lparr>journal := [GetOrCreate ?c]\<rparr>"
  let ?w2 = "busyWorld\<lparr>journal := [GetOrCreate ?c, ResolveRealPath 0 ''/proj/app.json'']\<rparr>"
  let ?w3 = "busyWorld\<lparr>journal := [GetOrCreate ?c, ResolveRealPath 0 ''/proj/app.json'',
                                     ReadFile 0 ''/proj/app.json'']\<rparr>"
  let ?w4 = "busyWorld\<lparr>journal := [GetOrCreate ?c, ResolveRealPath 0 ''/proj/app.json'',
                                     ReadFile 0 ''/proj/app.json'', TomlParse ''paths = [a, b]'']\<rparr>"
  let ?pc = "\<lparr>paths = PathsArray [''a'', ''b''], originPath = None\<rparr>"
  let ?ds = "[''/proj/a'', ''/proj/b'']"
  have a: "call (GetOrCreate ?c) (getOrCreate devEnv ?c) busyWorld = (Inr 0, ?w1)"
    by (simp add: call_def devEnv_def busyWorld_def devConfig_def)
  have b: "call (ResolveRealPath 0 (cwd ?c)) (resolveRealPath devEnv 0 (cwd ?c)) ?w1 = (Inr ''/proj/app.json'', ?w2)"
    by (simp add: call_def devEnv_def busyWorld_def devConfig_def)
  have c: "readContents devEnv 0 ''/proj/app.json'' ?w2 = (Some ''paths = [a, b]'', ?w3)"
    by (simp add: readContents_def hasAtomProjectFormat_def call_def devEnv_def busyWorld_def)
  have d: "parseProject devEnv ''paths = [a, b]'' ?w3 = (Inr ?pc, ?w4)"
    by (simp add: parseProject_def perform_def devEnv_def busyWorld_def)
  have t: "tryBlock devEnv ?c 0 ?w1 = (Inr (Directories ?ds), ?w4)"
    by (simp add: model_defs fixture_defs)
  have ds: "?ds = (case paths ?pc of
                 PathsArray ps \<Rightarrow> map (resolve devEnv (dirname devEnv ''/proj/app.json'')) ps
               | _ \<Rightarrow> [dirname devEnv ''/proj/app.json''])"
    by (simp add: devEnv_def)
  have p: "True = (promptReconnectOnFailure ?c \<noteq> Some False)"
    by (simp add: devConfig_def)
  have n: "nextRef busyWorld = 3" "displayTitle ?c = ''My project''"
    by (simp_all add: busyWorld_def devConfig_def)
  have ok: "promiseAll (fst (resumeAll devEnv (map (\<lambda>k. nextRef busyWorld + k) [0..<length ?ds])
        (snd (startAll 0 (displayTitle ?c) True 0 ?ds ?w4)))) = Inr [3, 4]"
    by (simp add: model_defs fixture_defs)
  note main = findOrCreate_project_directories[OF a b c d t ds p]
  from main have 2: "fst (findOrCreate devEnv ?c busyWorld) =
        (case promiseAll (fst (resumeAll devEnv (map (\<lambda>k. nextRef busyWorld + k) [0..<length ?ds])
                                 (snd (startAll 0 (displayTitle ?c) True 0 ?ds ?w4)))) of
           Inl err \<Rightarrow> Inl err
         | Inr _ \<Rightarrow> Inr (if ?ds = [] then None else Some (nextRef busyWorld)))"
    by blast
  from 2 have r: "fst (findOrCreate devEnv ?c busyWorld) = Inr (Some 3)"
    unfolding ok by (simp add: n)
  from main have hp: "\<forall>k<length ?ds.
          rc_cwd (heap (snd (findOrCreate devEnv ?c busyWorld)) (nextRef busyWorld + k)) = ?ds ! k
        \<and> rc_displayTitle (heap (snd (findOrCreate devEnv ?c busyWorld)) (nextRef busyWorld + k)) =
            (if k = 0 then displayTitle ?c else '''')
        \<and> rc_connection (heap (snd (findOrCreate devEnv ?c busyWorld)) (nextRef busyWorld + k)) = 0"
    by blast
  from hp[rule_format, of 0] have h3:
    "rc_cwd (heap (snd (findOrCreate devEnv ?c busyWorld)) 3) = ''/proj/a''"
    "rc_displayTitle (heap (snd (findOrCreate devEnv ?c busyWorld)) 3) = ''My project''"
    by (simp_all add: n)
  from hp[rule_format, of 1] have h4:
    "rc_cwd (heap (snd (findOrCreate devEnv ?c busyWorld)) 4) = ''/proj/b''"
    "rc_displayTitle (heap (snd (findOrCreate devEnv ?c busyWorld)) 4) = ''''"
    by (simp_all add: n)
  have j: "journal (snd (findOrCreate devEnv ?c busyWorld)) =
         [GetOrCreate ?c, ResolveRealPath 0 ''/proj/app.json'',
          ReadFile 0 ''/proj/app.json'', TomlParse ''paths = [a, b]'',
          Construct 3 \<lparr>rc_cwd = ''/proj/a'', rc_hgRepositoryDescription = None, rc_connection = 0,
                       rc_displayTitle = ''My project'', rc_alwaysShutdownIfLast = False,
                       rc_promptReconnectOnFailure = True\<rparr>,
          AddConnection 0 3, GetHgRepository 0 ''/proj/a'',
          Construct 4 \<lparr>rc_cwd = ''/proj/b'', rc_hgRepositoryDescription = None, rc_connection = 0,
                       rc_displayTitle = '''', rc_alwaysShutdownIfLast = False,
                       rc_promptReconnectOnFailure = True\<rparr>,
          AddConnection 0 4, GetHgRepository 0 ''/proj/b'',
          Emit ''did-add'' 3, WatchDirectoryRecursive 0 ''nuclide://dev/proj/a'',
          Emit ''did-add'' 4, WatchDirectoryRecursive 0 ''nuclide://dev/proj/b'']"
    by (simp add: model_defs fixture_defs)
  have g: "connections (reg (snd (findOrCreate devEnv ?c busyWorld))) 0 = [0, 1, 2, 3, 4]"
    by (simp add: model_defs fixture_defs)
  let ?c' = "devConfig ''/proj/plain.json''"
  let ?v1 = "idleWorld\<lparr>journal := [GetOrCreate ?c']\<rparr>"
  let ?v2 = "idleWorld\<lparr>journal := [GetOrCreate ?c', ResolveRealPath 0 ''/proj/plain.json'']\<rparr>"
  let ?v3 = "idleWorld\<lparr>journal := [GetOrCreate ?c', ResolveRealPath 0 ''/proj/plain.json'',
                                     ReadFile 0 ''/proj/plain.json'']\<rparr>"
  let ?v4 = "idleWorld\<lparr>journal := [GetOrCreate ?c', ResolveRealPath 0 ''/proj/plain.json'',
                                     ReadFile 0 ''/proj/plain.json'', TomlParse ''title = x'']\<rparr>"
  let ?pc' = "\<lparr>paths = PathsNull, originPath = None\<rparr>"
  let ?ds' = "[''/proj'']"
  have a': "call (GetOrCreate ?c') (getOrCreate devEnv ?c') idleWorld = (Inr 0, ?v1)"
    by (simp add: call_def devEnv_def idleWorld_def devConfig_def)
  have b': "call (ResolveRealPath 0 (cwd ?c')) (resolveRealPath devEnv 0 (cwd ?c')) ?v1 = (Inr ''/proj/plain.json'', ?v2)"
    by (simp add: call_def devEnv_def idleWorld_def devConfig_def)
  have c': "readContents devEnv 0 ''/proj/plain.json'' ?v2 = (Some ''title = x'', ?v3)"
    by (simp add: readContents_def hasAtomProjectFormat_def call_def devEnv_def idleWorld_def)
  have d': "parseProject devEnv ''title = x'' ?v3 = (Inr ?pc', ?v4)"
    by (simp add: parseProject_def perform_def devEnv_def idleWorld_def)
  have t': "tryBlock devEnv ?c' 0 ?v1 = (Inr (Directories ?ds'), ?v4)"
    by (simp add: model_defs fixture_defs)
  have ds': "?ds' = (case paths ?pc' of
                 PathsArray ps \<Rightarrow> map (resolve devEnv (dirname devEnv ''/proj/plain.json'')) ps
               | _ \<Rightarrow> [dirname devEnv ''/proj/plain.json''])"
    by (simp add: devEnv_def)
  have p': "True = (promptReconnectOnFailure ?c' \<noteq> Some False)"
    by (simp add: devConfig_def)
  have n': "nextRef idleWorld = 3" "displayTitle ?c' = ''My project''"
    by (simp_all add: idleWorld_def devConfig_def)
  have ok': "promiseAll (fst (resumeAll devEnv (map (\<lambda>k. nextRef idleWorld + k) [0..<length ?ds'])
        (snd (startAll 0 (displayTitle ?c') True 0 ?ds' ?v4)))) = Inr [3]"
    by (simp add: model_defs fixture_defs)
  note main' = findOrCreate_project_directories[OF a' b' c' d' t' ds' p']
  from main' have q2: "fst (findOrCreate devEnv ?c' idleWorld) =
        (case promiseAll (fst (resumeAll devEnv (map (\<lambda>k. nextRef idleWorld + k) [0..<length ?ds'])
                                 (snd (startAll 0 (displayTitle ?c') True 0 ?ds' ?v4)))) of
           Inl err \<Rightarrow> Inl err
         | Inr _ \<Rightarrow> Inr (if ?ds' = [] then None else Some (nextRef idleWorld)))"
    by blast
  from q2 have r': "fst (findOrCreate devEnv ?c' idleWorld) = Inr (Some 3)"
    unfolding ok' by (simp add: n')
  from main' have hp': "\<forall>k<length ?ds'.
          rc_cwd (heap (snd (findOrCreate devEnv ?c' idleWorld)) (nextRef idleWorld + k)) = ?ds' ! k
        \<and> rc_displayTitle (heap (snd (findOrCreate devEnv ?c' idleWorld)) (nextRef idleWorld + k)) =
            (if k = 0 then displayTitle ?c' else '''')
        \<and> rc_connection (heap (snd (findOrCreate devEnv ?c' idleWorld)) (nextRef idleWorld + k)) = 0"
    by blast
  from hp'[rule_format, of 0] have h3':
    "rc_cwd (heap (snd (findOrCreate devEnv ?c' idleWorld)) 3) = ''/proj''"
    "rc_displayTitle (heap (snd (findOrCreate devEnv ?c' idleWorld)) 3) = ''My project''"
    by (simp_all add: n')
  have g': "connections (reg (snd (findOrCreate devEnv ?c' idleWorld))) 0 = [3]"
    by (simp add: model_defs fixture_defs)
  from r j h3 h4 g r' h3' g' show ?thesis by blast
qed

text \<open>
  Claim C6, as amended. \<open>_initialize\<close> attaches the connection to its session before
  anything else and before it suspends: what it does at once is the attachment, then the
  request for the source-control description. The \<open>did-add\<close> emission comes after the
  registration. When the lookup, the emission or the start of the watch fails,
  \<open>_initialize\<close> calls \<open>close(false)\<close>, does not await it, and raises the original
  failure: by then the subscriptions are disposed and the detachment is requested with
  \<open>shutdownIfLast = false\<close>, the registry is as the failing step left it, and the rest of
  \<open>close\<close> is pending. The pending \<open>close\<close> emits \<open>did-close\<close> when the detachment
  returns; when the detachment raises, it emits nothing and the registry is as the
  detachment left it. When all three steps succeed \<open>_initialize\<close> returns the connection.
\<close>

theorem initialize_attaches_first_and_starts_close:
  assumes "s = rc_connection (heap w this)" and "ws = initialize_start this w"
  shows "journal ws = journal w @ [AddConnection s this, GetHgRepository s (rc_cwd (heap w this))]
    \<and> connections (reg ws) s = connections (reg w) s @ [this]
    \<and> (\<exists>rest. journal (snd (initialize e this w)) =
                 journal w @ AddConnection s this # GetHgRepository s (rc_cwd (heap w this)) # rest
              \<and> list_all lifecycle rest)
    \<and> (setHgRepoInfo_resume e this ws = (Inl err, w1) \<longrightarrow>
          initialize e this w =
            (Inl err, w1\<lparr>journal := journal w1 @ [Log Info ''Received close command!'', Dispose this,
                                                  RemoveConnection s this False],
                         pending := pending w1 @ [ClosePending s this False]\<rparr>))
    \<and> (setHgRepoInfo_resume e this ws = (Inr u, w1) \<and> emit e ''did-add'' this w1 = (Inl err, w2) \<longrightarrow>
          initialize e this w =
            (Inl err, w2\<lparr>journal := journal w2 @ [Log Info ''Received close command!'', Dispose this,
                                                  RemoveConnection s this False],
                         pending := pending w2 @ [ClosePending s this False]\<rparr>))
    \<and> (setHgRepoInfo_resume e this ws = (Inr u, w1) \<and> emit e ''did-add'' this w1 = (Inr u', w2) \<and>
        watchRootProjectDirectory e this w2 = (Inl err, w3) \<longrightarrow>
          initialize e this w =
            (Inl err, w3\<lparr>journal := journal w3 @ [Log Info ''Received close command!'', Dispose this,
                                                  RemoveConnection s this False],
                         pending := pending w3 @ [ClosePending s this False]\<rparr>))
    \<and> (setHgRepoInfo_resume e this ws = (Inr u, w1) \<and> emit e ''did-add'' this w1 = (Inr u', w2) \<and>
        watchRootProjectDirectory e this w2 = (Inr u'', w3) \<longrightarrow>
          initialize e this w = (Inr this, w3)
          \<and> (\<exists>uri. journal w3 = journal w @ [AddConnection s this,
                GetHgRepository s (rc_cwd (heap w this)), Emit ''did-add'' this,
                WatchDirectoryRecursive s uri]))
    \<and> (fst (initialize e this w) = Inl err \<longrightarrow>
          (\<exists>pre. journal (snd (initialize e this w)) =
              journal w @ AddConnection s this # GetHgRepository s (rc_cwd (heap w this)) # pre @
                [Log Info ''Received close command!'', Dispose this, RemoveConnection s this False]
            \<and> (pre = [] \<or> pre = [Emit ''did-add'' this]
               \<or> (\<exists>uri. pre = [Emit ''did-add'' this, WatchDirectoryRecursive s uri])))
          \<and> pending (snd (initialize e this w)) = pending w @ [ClosePending s this False])
    \<and> (removeConnection e s this False (reg v) = (Inr u3, g) \<longrightarrow>
          journal (settleTask e (ClosePending s this False) v) = journal v @ [Emit ''did-close'' this]
        \<and> reg (settleTask e (ClosePending s this False) v) = snd (deliver e ''did-close'' this g))
    \<and> (removeConnection e s this False (reg v) = (Inl err', g) \<longrightarrow>
          settleTask e (ClosePending s this False) v = v\<lparr>reg := g\<rparr>)"
proof -
  note sf = start_frame[of this w, folded assms]
  have j: "journal ws = journal w @ [AddConnection s this, GetHgRepository s (rc_cwd (heap w this))]"
    using sf by blast
  have c: "connections (reg ws) s = connections (reg w) s @ [this]" using sf by blast
  have h: "heap ws = heap w" using sf by blast
  have p: "pending ws = pending w" using sf by blast
  have i: "initialize e this w = initialize_resume e this ws"
    by (simp add: initialize_def assms)
  have rest: "\<exists>rest. journal (snd (initialize e this w)) =
                 journal w @ AddConnection s this # GetHgRepository s (rc_cwd (heap w this)) # rest
              \<and> list_all lifecycle rest"
  proof -
    from appended_resume[of e this ws "fst (initialize_resume e this ws)" "snd (initialize_resume e this ws)"]
    obtain js where "journal (snd (initialize_resume e this ws)) = journal ws @ js" "list_all lifecycle js"
      by (auto simp: appended_def)
    with j i show ?thesis by simp
  qed
  have f1: "setHgRepoInfo_resume e this ws = (Inl err, w1) \<longrightarrow>
          initialize e this w =
            (Inl err, w1\<lparr>journal := journal w1 @ [Log Info ''Received close command!'', Dispose this,
                                                  RemoveConnection s this False],
                         pending := pending w1 @ [ClosePending s this False]\<rparr>)"
  proof
    assume a: "setHgRepoInfo_resume e this ws = (Inl err, w1)"
    from setHgRepoInfo_resume_frame[OF a, of this] h assms(1)
    have "rc_connection (heap w1 this) = s" by simp
    with a show "initialize e this w =
            (Inl err, w1\<lparr>journal := journal w1 @ [Log Info ''Received close command!'', Dispose this,
                                                  RemoveConnection s this False],
                         pending := pending w1 @ [ClosePending s this False]\<rparr>)"
      by (simp add: i initialize_resume_def initialize_catch_def close_start_def perform_def Let_def)
  qed
  have f2: "setHgRepoInfo_resume e this ws = (Inr u, w1) \<and> emit e ''did-add'' this w1 = (Inl err, w2) \<longrightarrow>
          initialize e this w =
            (Inl err, w2\<lparr>journal := journal w2 @ [Log Info ''Received close command!'', Dispose this,
                                                  RemoveConnection s this False],
                         pending := pending w2 @ [ClosePending s this False]\<rparr>)"
  proof (intro impI, elim conjE)
    assume a: "setHgRepoInfo_resume e this ws = (Inr u, w1)" "emit e ''did-add'' this w1 = (Inl err, w2)"
    from setHgRepoInfo_resume_frame[OF a(1), of this] emit_frame[OF a(2)] h assms(1)
    have "rc_connection (heap w2 this) = s" by simp
    with a show "initialize e this w =
            (Inl err, w2\<lparr>journal := journal w2 @ [Log Info ''Received close command!'', Dispose this,
                                                  RemoveConnection s this False],
                         pending := pending w2 @ [ClosePending s this False]\<rparr>)"
      by (simp add: i initialize_resume_def initialize_catch_def close_start_def perform_def Let_def)
  qed
  have f3: "setHgRepoInfo_resume e this ws = (Inr u, w1) \<and> emit e ''did-add'' this w1 = (Inr u', w2) \<and>
        watchRootProjectDirectory e this w2 = (Inl err, w3) \<longrightarrow>
          initialize e this w =
            (Inl err, w3\<lparr>journal := journal w3 @ [Log Info ''Received close command!'', Dispose this,
                                                  RemoveConnection s this False],
                         pending := pending w3 @ [ClosePending s this False]\<rparr>)"
  proof (intro impI, elim conjE)
    assume a: "setHgRepoInfo_resume e this ws = (Inr u, w1)" "emit e ''did-add'' this w1 = (Inr u', w2)"
      "watchRootProjectDirectory e this w2 = (Inl err, w3)"
    from setHgRepoInfo_resume_frame[OF a(1), of this] emit_frame[OF a(2)] watch_frame[OF a(3)] h assms(1)
    have "rc_connection (heap w3 this) = s" by simp
    with a show "initialize e this w =
            (Inl err, w3\<lparr>journal := journal w3 @ [Log Info ''Received close command!'', Dispose this,
                                                  RemoveConnection s this False],
                         pending := pending w3 @ [ClosePending s this False]\<rparr>)"
      by (simp add: i initialize_resume_def initialize_catch_def close_start_def perform_def Let_def)
  qed
  have ok: "setHgRepoInfo_resume e this ws = (Inr u, w1) \<and> emit e ''did-add'' this w1 = (Inr u', w2) \<and>
        watchRootProjectDirectory e this w2 = (Inr u'', w3) \<longrightarrow>
          initialize e this w = (Inr this, w3)
          \<and> (\<exists>uri. journal w3 = journal w @ [AddConnection s this,
                GetHgRepository s (rc_cwd (heap w this)), Emit ''did-add'' this,
                WatchDirectoryRecursive s uri])"
  proof (intro impI, elim conjE)
    assume a: "setHgRepoInfo_resume e this ws = (Inr u, w1)" "emit e ''did-add'' this w1 = (Inr u', w2)"
      "watchRootProjectDirectory e this w2 = (Inr u'', w3)"
    have r: "initialize e this w = (Inr this, w3)"
      by (simp add: i initialize_resume_def a)
    from setHgRepoInfo_resume_frame[OF a(1), of this] emit_frame[OF a(2)] watch_frame[OF a(3)] j h assms(1)
    have "\<exists>uri. journal w3 = journal w @ [AddConnection s this,
                GetHgRepository s (rc_cwd (heap w this)), Emit ''did-add'' this,
                WatchDirectoryRecursive s uri]"
      by auto
    with r show "initialize e this w = (Inr this, w3)
          \<and> (\<exists>uri. journal w3 = journal w @ [AddConnection s this,
                GetHgRepository s (rc_cwd (heap w this)), Emit ''did-add'' this,
                WatchDirectoryRecursive s uri])" by blast
  qed
  have fail: "fst (initialize e this w) = Inl err \<longrightarrow>
          (\<exists>pre. journal (snd (initialize e this w)) =
              journal w @ AddConnection s this # GetHgRepository s (rc_cwd (heap w this)) # pre @
                [Log Info ''Received close command!'', Dispose this, RemoveConnection s this False]
            \<and> (pre = [] \<or> pre = [Emit ''did-add'' this]
               \<or> (\<exists>uri. pre = [Emit ''did-add'' this, WatchDirectoryRecursive s uri])))
          \<and> pending (snd (initialize e this w)) = pending w @ [ClosePending s this False]"
  proof
    assume "fst (initialize e this w) = Inl err"
    then have "fst (initialize_resume e this ws) = Inl err" by (simp add: i)
    from initialize_resume_fails[OF this] obtain pre wk where
      k: "journal wk = journal ws @ pre"
        "pre = [] \<or> pre = [Emit ''did-add'' this]
          \<or> (\<exists>uri. pre = [Emit ''did-add'' this, WatchDirectoryRecursive (rc_connection (heap ws this)) uri])"
        "rc_connection (heap wk this) = rc_connection (heap ws this)"
        "pending wk = pending ws"
        "initialize_resume e this ws = initialize_catch this err wk" by blast
    from catch_frame[of this err wk "fst (initialize_catch this err wk)" "snd (initialize_catch this err wk)"]
    have cf: "journal (snd (initialize_catch this err wk)) =
          journal wk @ [Log Info ''Received close command!'', Dispose this,
                        RemoveConnection (rc_connection (heap wk this)) this False]"
      "pending (snd (initialize_catch this err wk)) =
          pending wk @ [ClosePending (rc_connection (heap wk this)) this False]"
      by simp_all
    from k cf j h p assms(1) have 1: "journal (snd (initialize e this w)) =
              journal w @ AddConnection s this # GetHgRepository s (rc_cwd (heap w this)) # pre @
                [Log Info ''Received close command!'', Dispose this, RemoveConnection s this False]"
      and 2: "pending (snd (initialize e this w)) = pending w @ [ClosePending s this False]"
      by (simp_all add: i)
    from k(2) h assms(1) have 3: "pre = [] \<or> pre = [Emit ''did-add'' this]
               \<or> (\<exists>uri. pre = [Emit ''did-add'' this, WatchDirectoryRecursive s uri])"
      by simp
    from 1 2 3 show "(\<exists>pre. journal (snd (initialize e this w)) =
              journal w @ AddConnection s this # GetHgRepository s (rc_cwd (heap w this)) # pre @
                [Log Info ''Received close command!'', Dispose this, RemoveConnection s this False]
            \<and> (pre = [] \<or> pre = [Emit ''did-add'' this]
               \<or> (\<exists>uri. pre = [Emit ''did-add'' this, WatchDirectoryRecursive s uri])))
          \<and> pending (snd (initialize e this w)) = pending w @ [ClosePending s this False]"
      by blast
  qed
  have s1: "removeConnection e s this False (reg v) = (Inr u3, g) \<longrightarrow>
          journal (settleTask e (ClosePending s this False) v) = journal v @ [Emit ''did-close'' this]
        \<and> reg (settleTask e (ClosePending s this False) v) = snd (deliver e ''did-close'' this g)"
    by (auto simp: settleTask_def close_resume_def answer_def emit_def call_def split: prod.splits)
  have s2: "removeConnection e s this False (reg v) = (Inl err', g) \<longrightarrow>
          settleTask e (ClosePending s this False) v = v\<lparr>reg := g\<rparr>"
    by (simp add: settleTask_def close_resume_def answer_def)
  from j c rest f1 f2 f3 ok fail s1 s2 show ?thesis by blast
qed

text \<open>
  On the development host: initialising a fresh connection for \<open>/data/nohg\<close> fails with
  the failure of the lookup; the connection is attached, its detachment is requested, and
  it is still on the session's list when the failure is raised; it is detached, and
  \<open>did-close\<close> is emitted, when the pending \<open>close\<close> resumes. Initialising a connection
  for \<open>/data\<close> succeeds with the four steps in order.
\<close>

theorem initialize_attaches_first_and_starts_close_witness:
  "fst (initialize devEnv 3 (snd (construct 0 ''/data/nohg'' ''My project'' True idleWorld))) = Inl typeError
   \<and> journal (snd (initialize devEnv 3 (snd (construct 0 ''/data/nohg'' ''My project'' True idleWorld)))) =
       [Construct 3 \<lparr>rc_cwd = ''/data/nohg'', rc_hgRepositoryDescription = None, rc_connection = 0,
                    rc_displayTitle = ''My project'', rc_alwaysShutdownIfLast = False,
                    rc_promptReconnectOnFailure = True\<rparr>,
        AddConnection 0 3, GetHgRepository 0 ''/data/nohg'',
        Log Info ''Received close command!'', Dispose 3, RemoveConnection 0 3 False]
   \<and> connections (reg (snd (initialize devEnv 3 (snd (construct 0 ''/data/nohg'' ''My project'' True idleWorld))))) 0 = [3]
   \<and> pending (snd (initialize devEnv 3 (snd (construct 0 ''/data/nohg'' ''My project'' True idleWorld)))) =
       [ClosePending 0 3 False]
   \<and> journal (settle devEnv (snd (initialize devEnv 3 (snd (construct 0 ''/data/nohg'' ''My project'' True idleWorld))))) =
       [Construct 3 \<lparr>rc_cwd = ''/data/nohg'', rc_hgRepositoryDescription = None, rc_connection = 0,
                    rc_displayTitle = ''My project'', rc_alwaysShutdownIfLast = False,
                    rc_promptReconnectOnFailure = True\<rparr>,
        AddConnection 0 3, GetHgRepository 0 ''/data/nohg'',
        Log Info ''Received close command!'', Dispose 3, RemoveConnection 0 3 False,
        Emit ''did-close'' 3]
   \<and> connections (reg (settle devEnv (snd (initialize devEnv 3 (snd (construct 0 ''/data/nohg'' ''My project'' True idleWorld)))))) 0 = []
   \<and> initialize devEnv 1 idleWorld =
       (Inr 1, idleWorld\<lparr>reg := devRegistry [1],
                         journal := [AddConnection 0 1, GetHgRepository 0 ''/data'', Emit ''did-add'' 1,
                                     WatchDirectoryRecursive 0 ''nuclide://dev/data'']\<rparr>)"
proof -
  let ?w = "snd (construct 0 ''/data/nohg'' ''My project'' True idleWorld)"
  let ?ws = "initialize_start 3 ?w"
  let ?w1 = "snd (setHgRepoInfo_resume devEnv 3 ?ws)"
  let ?wf = "?w1\<lparr>journal := journal ?w1 @ [Log Info ''Received close command!'', Dispose 3,
                                            RemoveConnection 0 3 False],
                  pending := pending ?w1 @ [ClosePending 0 3 False]\<rparr>"
  have s: "rc_connection (heap ?w 3) = 0"
    by (simp add: construct_def newConnection_def idleWorld_def Let_def)
  have "fst (setHgRepoInfo_resume devEnv 3 ?ws) = Inl typeError"
    by (simp add: model_defs fixture_defs)
  then have h1: "setHgRepoInfo_resume devEnv 3 ?ws = (Inl typeError, ?w1)"
    by (simp add: prod_eq_iff)
  from initialize_attaches_first_and_starts_close[OF refl refl, where e = devEnv and this = 3
      and w = ?w and err = typeError and ?w1.0 = ?w1] h1 s
  have i: "initialize devEnv 3 ?w = (Inl typeError, ?wf)"
    by simp
  have c: "journal ?wf =
       [Construct 3 \<lparr>rc_cwd = ''/data/nohg'', rc_hgRepositoryDescription = None, rc_connection = 0,
                    rc_displayTitle = ''My project'', rc_alwaysShutdownIfLast = False,
                    rc_promptReconnectOnFailure = True\<rparr>,
        AddConnection 0 3, GetHgRepository 0 ''/data/nohg'',
        Log Info ''Received close command!'', Dispose 3, RemoveConnection 0 3 False]"
    "connections (reg ?wf) 0 = [3]"
    "pending ?wf = [ClosePending 0 3 False]"
    by (simp_all add: model_defs fixture_defs)
  have r: "removeConnection devEnv 0 3 False (reg (?wf\<lparr>pending := []\<rparr>)) =
      (Inr (), (reg ?wf)\<lparr>connections := (connections (reg ?wf))(0 := [])\<rparr>)"
    by (simp add: model_defs fixture_defs)
  from initialize_attaches_first_and_starts_close[OF refl refl, where e = devEnv and this = 3
      and w = ?w and v = "?wf\<lparr>pending := []\<rparr>" and ?u3.0 = "()"
      and g = "(reg ?wf)\<lparr>connections := (connections (reg ?wf))(0 := [])\<rparr>"] r s
  have t: "journal (settleTask devEnv (ClosePending 0 3 False) (?wf\<lparr>pending := []\<rparr>)) =
        journal ?wf @ [Emit ''did-close'' 3]"
    "reg (settleTask devEnv (ClosePending 0 3 False) (?wf\<lparr>pending := []\<rparr>)) =
        snd (deliver devEnv ''did-close'' 3 ((reg ?wf)\<lparr>connections := (connections (reg ?wf))(0 := [])\<rparr>))"
    by simp_all
  have st: "settle devEnv ?wf = settleTask devEnv (ClosePending 0 3 False) (?wf\<lparr>pending := []\<rparr>)"
    by (simp add: settle_def c(3))
  have d: "journal (settle devEnv ?wf) =
       [Construct 3 \<lparr>rc_cwd = ''/data/nohg'', rc_hgRepositoryDescription = None, rc_connection = 0,
                    rc_displayTitle = ''My project'', rc_alwaysShutdownIfLast = False,
                    rc_promptReconnectOnFailure = True\<rparr>,
        AddConnection 0 3, GetHgRepository 0 ''/data/nohg'',
        Log Info ''Received close command!'', Dispose 3, RemoveConnection 0 3 False,
        Emit ''did-close'' 3]"
    "connections (reg (settle devEnv ?wf)) 0 = []"
  proof -
    show "journal (settle devEnv ?wf) =
       [Construct 3 \<lparr>rc_cwd = ''/data/nohg'', rc_hgRepositoryDescription = None, rc_connection = 0,
                    rc_displayTitle = ''My project'', rc_alwaysShutdownIfLast = False,
                    rc_promptReconnectOnFailure = True\<rparr>,
        AddConnection 0 3, GetHgRepository 0 ''/data/nohg'',
        Log Info ''Received close command!'', Dispose 3, RemoveConnection 0 3 False,
        Emit ''did-close'' 3]"
      by (simp only: st t(1) c(1)) simp
    show "connections (reg (settle devEnv ?wf)) 0 = []"
      by (simp only: st t(2)) (simp add: devEnv_def)
  qed
  let ?vs = "initialize_start 1 idleWorld"
  let ?v1 = "idleWorld\<lparr>reg := devRegistry [1],
      journal := [AddConnection 0 1, GetHgRepository 0 ''/data'']\<rparr>"
  let ?v2 = "idleWorld\<lparr>reg := devRegistry [1],
      journal := [AddConnection 0 1, GetHgRepository 0 ''/data'', Emit ''did-add'' 1]\<rparr>"
  let ?v3 = "idleWorld\<lparr>reg := devRegistry [1],
      journal := [AddConnection 0 1, GetHgRepository 0 ''/data'', Emit ''did-add'' 1,
                  WatchDirectoryRecursive 0 ''nuclide://dev/data'']\<rparr>"
  have k1: "setHgRepoInfo_resume devEnv 1 ?vs = (Inr (), ?v1)"
    by (simp add: model_defs fixture_defs fun_eq_iff)
  have k2: "emit devEnv ''did-add'' 1 ?v1 = (Inr (), ?v2)"
    by (simp add: model_defs fixture_defs)
  have k3: "watchRootProjectDirectory devEnv 1 ?v2 = (Inr (), ?v3)"
    by (simp add: model_defs fixture_defs)
  from initialize_attaches_first_and_starts_close[OF refl refl, where e = devEnv and this = 1
      and w = idleWorld and u = "()" and u' = "()" and u'' = "()"
      and ?w1.0 = ?v1 and ?w2.0 = ?v2 and ?w3.0 = ?v3] k1 k2 k3
  have o: "initialize devEnv 1 idleWorld = (Inr 1, ?v3)"
    by blast
  from i c d o show ?thesis by simp
qed

text \<open>
  Claim C6 as stated fails in its last clause: a connection whose initialisation failed
  can stay registered. On a session whose \<open>removeConnection\<close> raises, initialising a fresh
  connection for \<open>/data/nohg\<close> raises the failure of the lookup; when the pending \<open>close\<close>
  has run, the connection is still on the session's list, and no \<open>did-add\<close> was emitted
  for it. When it is the watch that cannot be started, \<open>did-add\<close> was emitted, no
  \<open>did-close\<close> follows it, and the connection is still on the list.
\<close>

theorem initialize_left_attached_counterexample:
  "fst (initialize stuckEnv 3 (snd (construct 0 ''/data/nohg'' ''My project'' True idleWorld))) = Inl typeError
   \<and> pending (snd (initialize stuckEnv 3 (snd (construct 0 ''/data/nohg'' ''My project'' True idleWorld)))) =
       [ClosePending 0 3 False]
   \<and> pending (settle stuckEnv (snd (initialize stuckEnv 3 (snd (construct 0 ''/data/nohg'' ''My project'' True idleWorld))))) = []
   \<and> connections (reg (settle stuckEnv (snd (initialize stuckEnv 3 (snd (construct 0 ''/data/nohg'' ''My project'' True idleWorld)))))) 0 = [3]
   \<and> Emit ''did-add'' 3 \<notin> set (journal (settle stuckEnv (snd (initialize stuckEnv 3 (snd (construct 0 ''/data/nohg'' ''My project'' True idleWorld))))))
   \<and> fst (initialize blindEnv 3 (snd (construct 0 ''/data/new'' ''My project'' True idleWorld))) = Inl typeError
   \<and> journal (settle blindEnv (snd (initialize blindEnv 3 (snd (construct 0 ''/data/new'' ''My project'' True idleWorld))))) =
       [Construct 3 \<lparr>rc_cwd = ''/data/new'', rc_hgRepositoryDescription = None, rc_connection = 0,
                    rc_displayTitle = ''My project'', rc_alwaysShutdownIfLast = False,
                    rc_promptReconnectOnFailure = True\<rparr>,
        AddConnection 0 3, GetHgRepository 0 ''/data/new'', Emit ''did-add'' 3,
        WatchDirectoryRecursive 0 ''nuclide://dev/data/new'',
        Log Info ''Received close command!'', Dispose 3, RemoveConnection 0 3 False]
   \<and> connections (reg (settle blindEnv (snd (initialize blindEnv 3 (snd (construct 0 ''/data/new'' ''My project'' True idleWorld)))))) 0 = [3]"
  by (simp add: model_defs fixture_defs stuckEnv_def blindEnv_def)

text \<open>
  Claim C7. \<open>getByHostnameAndPath(H, P)\<close> returns the first connection, in registration
  order, among those attached to the session of host \<open>H\<close> whose working directory is a
  prefix of \<open>P\<close> as a string; it returns nothing exactly when no such connection has a
  working directory that is a string prefix of \<open>P\<close>. The comparison is on the raw strings:
  no path-segment boundary is asked for.
\<close>

theorem getByHostnameAndPath_first_prefix:
  "getByHostnameAndPath H P w =
     find (\<lambda>c. prefix (getPathForInitialWorkingDirectory w c) P) (getByHostname H (reg w))
   \<and> (getByHostnameAndPath H P w = None \<longleftrightarrow>
        (\<forall>c\<in>set (getByHostname H (reg w)). \<not> prefix (getPathForInitialWorkingDirectory w c) P))
   \<and> (\<forall>c. getByHostnameAndPath H P w = Some c \<longrightarrow>
        (\<exists>pre post. getByHostname H (reg w) = pre @ c # post
           \<and> prefix (getPathForInitialWorkingDirectory w c) P
           \<and> (\<forall>d\<in>set pre. \<not> prefix (getPathForInitialWorkingDirectory w d) P)))"
proof -
  let ?p = "\<lambda>c. prefix (getPathForInitialWorkingDirectory w c) P"
  have eq: "getByHostnameAndPath H P w = find ?p (getByHostname H (reg w))"
    unfolding getByHostnameAndPath_def by (rule first_filter_find)
  have none: "getByHostnameAndPath H P w = None \<longleftrightarrow> (\<forall>c\<in>set (getByHostname H (reg w)). \<not> ?p c)"
    unfolding eq by (auto simp: find_None_iff)
  have some: "\<forall>c. getByHostnameAndPath H P w = Some c \<longrightarrow>
        (\<exists>pre post. getByHostname H (reg w) = pre @ c # post \<and> ?p c \<and> (\<forall>d\<in>set pre. \<not> ?p d))"
    unfolding eq using find_Some_split[of ?p] by blast
  from eq none some show ?thesis by blast
qed

text \<open>
  On the development host: \<open>/data/foobar\<close> is found under the connection rooted at
  \<open>/data/foo\<close>, which is no ancestor directory of it, and that connection wins over the
  one rooted at \<open>/data\<close>, registered after it; \<open>/proj/app.json\<close> skips both and finds
  the third; nothing is found for \<open>/dat\<close>, nor for a host without a session.
\<close>

theorem getByHostnameAndPath_first_prefix_witness:
  "getByHostnameAndPath ''dev'' ''/data/foobar'' busyWorld = Some 0
   \<and> (\<exists>pre post. getByHostname ''dev'' (reg busyWorld) = pre @ 0 # post
         \<and> prefix (getPathForInitialWorkingDirectory busyWorld 0) ''/data/foobar''
         \<and> (\<forall>d\<in>set pre. \<not> prefix (getPathForInitialWorkingDirectory busyWorld d) ''/data/foobar''))
   \<and> getByHostnameAndPath ''dev'' ''/proj/app.json'' busyWorld = Some 2
   \<and> getByHostnameAndPath ''dev'' ''/dat'' busyWorld = None
   \<and> getByHostnameAndPath ''other'' ''/data/foobar'' busyWorld = None"
proof -
  have a: "getByHostnameAndPath ''dev'' ''/data/foobar'' busyWorld = Some 0"
    by (simp add: getByHostnameAndPath_def getByHostname_def fixture_defs
        getPathForInitialWorkingDirectory_def)
  have b: "getByHostnameAndPath ''dev'' ''/dat'' busyWorld = None"
    by (simp add: getByHostnameAndPath_def getByHostname_def fixture_defs
        getPathForInitialWorkingDirectory_def)
  have c: "getByHostnameAndPath ''other'' ''/data/foobar'' busyWorld = None"
    by (simp add: getByHostnameAndPath_def getByHostname_def fixture_defs)
  have d: "getByHostnameAndPath ''dev'' ''/proj/app.json'' busyWorld = Some 2"
    by (simp add: getByHostnameAndPath_def getByHostname_def fixture_defs
        getPathForInitialWorkingDirectory_def)
  from getByHostnameAndPath_first_prefix[of "''dev''" "''/data/foobar''" busyWorld] a b c d
  show ?thesis by blast
qed

text \<open>
  Claim C8. When \<open>cwd\<close> is no project-descriptor path and \<open>getByHostnameAndPath\<close> finds a
  registered connection for the host whose working directory is a prefix of \<open>cwd\<close>,
  \<open>reconnect\<close> returns it: it has logged one line and called no collaborator, and the
  registry and the heap are untouched. Otherwise its first call is the lookup of the saved
  configuration of the host; a connection or a failure of that attempt is the result;
  when the attempt yields nothing, the address of the host is looked up, a failing lookup
  gives \<open>null\<close>, and otherwise what the attempt by address returns is the result: its
  connection, or \<open>null\<close> when it yields nothing too.
\<close>

theorem reconnect_prefers_live_connection:
  assumes "w0 = perform (Log Info ''Attempting to reconnect'') w"
  shows "(\<not> hasAtomProjectFormat e dir \<and> getByHostnameAndPath h dir w = Some c \<longrightarrow>
            reconnect e h dir title prompt w = (Inr (Some c), w0)
          \<and> reg w0 = reg w \<and> heap w0 = heap w
          \<and> journal w0 = journal w @ [Log Info ''Attempting to reconnect''])
    \<and> (hasAtomProjectFormat e dir \<or> getByHostnameAndPath h dir w = None \<longrightarrow>
          (\<exists>rest. journal (snd (reconnect e h dir title prompt w)) =
              journal w @ Log Info ''Attempting to reconnect'' # GetConnectionConfig h # rest)
        \<and> (createConnectionBySavedConfig e h dir title prompt w0 = (Inl err, w1) \<longrightarrow>
              reconnect e h dir title prompt w = (Inl err, w1))
        \<and> (createConnectionBySavedConfig e h dir title prompt w0 = (Inr (Some c), w1) \<longrightarrow>
              reconnect e h dir title prompt w = (Inr (Some c), w1))
        \<and> (createConnectionBySavedConfig e h dir title prompt w0 = (Inr None, w1) \<and>
            call (LookupPreferIpv6 h) (lookupPreferIpv6 e h) w1 = (Inl err, w2) \<longrightarrow>
              reconnect e h dir title prompt w = (Inr None, w2))
        \<and> (createConnectionBySavedConfig e h dir title prompt w0 = (Inr None, w1) \<and>
            call (LookupPreferIpv6 h) (lookupPreferIpv6 e h) w1 = (Inr address, w2) \<and>
            createConnectionBySavedConfig e address dir title prompt w2 = (Inr r, w3) \<longrightarrow>
              reconnect e h dir title prompt w = (Inr r, w3)))"
proof (intro conjI impI)
  assume "\<not> hasAtomProjectFormat e dir \<and> getByHostnameAndPath h dir w = Some c"
  then show "reconnect e h dir title prompt w = (Inr (Some c), w0)"
    by (simp add: reconnect_def Let_def assms getByHostnameAndPath_perform)
next
  show "reg w0 = reg w" "heap w0 = heap w"
    "journal w0 = journal w @ [Log Info ''Attempting to reconnect'']"
    by (simp_all add: assms perform_def)
next
  assume o: "hasAtomProjectFormat e dir \<or> getByHostnameAndPath h dir w = None"
  then have n: "(if \<not> hasAtomProjectFormat e dir then getByHostnameAndPath h dir w0 else None) = None"
    by (auto simp: assms getByHostnameAndPath_perform)
  have u: "reconnect e h dir title prompt w =
      (case createConnectionBySavedConfig e h dir title prompt w0 of
                (Inl err, w1) \<Rightarrow> (Inl err, w1)
              | (Inr (Some connection), w1) \<Rightarrow> (Inr (Some connection), w1)
              | (Inr None, w1) \<Rightarrow>
                  (case call (LookupPreferIpv6 h) (lookupPreferIpv6 e h) w1 of
                     (Inl _, w2) \<Rightarrow> (Inr None, w2)
                   | (Inr address, w2) \<Rightarrow>
                       (case createConnectionBySavedConfig e address dir title prompt w2 of
                          (Inl _, w3) \<Rightarrow> (Inr None, w3)
                        | (Inr connection, w3) \<Rightarrow> (Inr connection, w3))))"
    unfolding reconnect_def Let_def assms[symmetric] n by simp
  {
    assume "createConnectionBySavedConfig e h dir title prompt w0 = (Inl err, w1)"
    then show "reconnect e h dir title prompt w = (Inl err, w1)" by (simp add: u)
  }
  {
    assume "createConnectionBySavedConfig e h dir title prompt w0 = (Inr (Some c), w1)"
    then show "reconnect e h dir title prompt w = (Inr (Some c), w1)" by (simp add: u)
  }
  {
    assume "createConnectionBySavedConfig e h dir title prompt w0 = (Inr None, w1) \<and>
            call (LookupPreferIpv6 h) (lookupPreferIpv6 e h) w1 = (Inl err, w2)"
    then show "reconnect e h dir title prompt w = (Inr None, w2)" by (simp add: u)
  }
  {
    assume "createConnectionBySavedConfig e h dir title prompt w0 = (Inr None, w1) \<and>
            call (LookupPreferIpv6 h) (lookupPreferIpv6 e h) w1 = (Inr address, w2) \<and>
            createConnectionBySavedConfig e address dir title prompt w2 = (Inr r, w3)"
    then show "reconnect e h dir title prompt w = (Inr r, w3)" by (simp add: u)
  }
  show "\<exists>rest. journal (snd (reconnect e h dir title prompt w)) =
              journal w @ Log Info ''Attempting to reconnect'' # GetConnectionConfig h # rest"
  proof -
    obtain r1 v1 where c1: "createConnectionBySavedConfig e h dir title prompt w0 = (r1, v1)"
      by (cases "createConnectionBySavedConfig e h dir title prompt w0") blast
    from createConnectionBySavedConfig_grows[of e h dir title prompt w0] c1 obtain js where
      j1: "journal v1 = journal w @ Log Info ''Attempting to reconnect'' # GetConnectionConfig h # js"
      by (auto simp: assms perform_def)
    obtain r2 v2 where c2: "call (LookupPreferIpv6 h) (lookupPreferIpv6 e h) v1 = (r2, v2)"
      by (cases "call (LookupPreferIpv6 h) (lookupPreferIpv6 e h) v1") blast
    note f2 = call_frame[OF c2]
    have g: "\<And>address. \<exists>ks. journal (snd (createConnectionBySavedConfig e address dir title prompt v2)) =
        journal v2 @ ks"
      using createConnectionBySavedConfig_grows by blast
    show ?thesis
    proof (cases r1)
      case (Inl x)
      with c1 j1 show ?thesis by (simp add: u)
    next
      case (Inr oc)
      show ?thesis
      proof (cases oc)
        case (Some x)
        with Inr c1 j1 show ?thesis by (simp add: u)
      next
        case None
        show ?thesis
        proof (cases r2)
          case (Inl x)
          with None Inr c1 c2 j1 f2 show ?thesis by (simp add: u)
        next
          case i2: (Inr address)
          from g[of address] obtain ks where
            ks: "journal (snd (createConnectionBySavedConfig e address dir title prompt v2)) = journal v2 @ ks"
            by blast
          obtain r3 v3 where c3: "createConnectionBySavedConfig e address dir title prompt v2 = (r3, v3)"
            by (cases "createConnectionBySavedConfig e address dir title prompt v2") blast
          with ks have j3: "journal v3 = journal v2 @ ks" by simp
          from None Inr c1 c2 i2 c3 j1 f2 j3 show ?thesis
            by (cases r3) (simp_all add: u)
        qed
      qed
    qed
  qed
qed

text \<open>
  On the development host: \<open>/data/foobar\<close> is covered by a live connection of the busy
  session, which is returned after the log line alone; with the idle session, the saved
  configuration is found under the address of \<open>dev\<close> and a new connection is returned;
  for a host whose address lookup fails the result is \<open>null\<close>.
\<close>

theorem reconnect_prefers_live_connection_witness:
  "reconnect devEnv ''dev'' ''/data/foobar'' ''t'' True busyWorld =
     (Inr (Some 0), busyWorld\<lparr>journal := [Log Info ''Attempting to reconnect'']\<rparr>)
   \<and> fst (reconnect devEnv ''dev'' ''/home/x'' ''t'' True idleWorld) = Inr (Some 3)
   \<and> fst (reconnect devEnv ''other'' ''/home/x'' ''t'' True idleWorld) = Inr None
   \<and> (\<exists>rest. journal (snd (reconnect devEnv ''other'' ''/home/x'' ''t'' True idleWorld)) =
         Log Info ''Attempting to reconnect'' # GetConnectionConfig ''other'' # rest)"
proof -
  let ?l = "Log Info ''Attempting to reconnect''"
  have a: "\<not> hasAtomProjectFormat devEnv ''/data/foobar''
      \<and> getByHostnameAndPath ''dev'' ''/data/foobar'' busyWorld = Some 0"
    by (simp add: hasAtomProjectFormat_def getByHostnameAndPath_def getByHostname_def
        getPathForInitialWorkingDirectory_def fixture_defs)
  from reconnect_prefers_live_connection[OF refl, where e = devEnv and h = "''dev''"
      and dir = "''/data/foobar''" and w = busyWorld and c = 0 and title = "''t''" and prompt = True] a
  have 1: "reconnect devEnv ''dev'' ''/data/foobar'' ''t'' True busyWorld = (Inr (Some 0), perform ?l busyWorld)"
    by blast
  have p: "perform ?l busyWorld = busyWorld\<lparr>journal := [?l]\<rparr>"
    by (simp add: perform_def busyWorld_def)
  let ?w0 = "perform ?l idleWorld"
  have n: "getByHostnameAndPath ''dev'' ''/home/x'' idleWorld = None"
    "getByHostnameAndPath ''other'' ''/home/x'' idleWorld = None"
    by (simp_all add: getByHostnameAndPath_def getByHostname_def fixture_defs)
  let ?w1 = "snd (createConnectionBySavedConfig devEnv ''dev'' ''/home/x'' ''t'' True ?w0)"
  have "fst (createConnectionBySavedConfig devEnv ''dev'' ''/home/x'' ''t'' True ?w0) = Inr None"
    by (simp add: createConnectionBySavedConfig_def call_def devEnv_def)
  then have b1: "createConnectionBySavedConfig devEnv ''dev'' ''/home/x'' ''t'' True ?w0 = (Inr None, ?w1)"
    by (simp add: prod_eq_iff)
  let ?w2 = "snd (call (LookupPreferIpv6 ''dev'') (lookupPreferIpv6 devEnv ''dev'') ?w1)"
  have "fst (call (LookupPreferIpv6 ''dev'') (lookupPreferIpv6 devEnv ''dev'') ?w1) = Inr ''10.0.0.1''"
    by (simp add: call_def devEnv_def split: prod.splits)
  then have b2: "call (LookupPreferIpv6 ''dev'') (lookupPreferIpv6 devEnv ''dev'') ?w1 = (Inr ''10.0.0.1'', ?w2)"
    by (simp add: prod_eq_iff)
  let ?w3 = "snd (createConnectionBySavedConfig devEnv ''10.0.0.1'' ''/home/x'' ''t'' True ?w2)"
  have "fst (createConnectionBySavedConfig devEnv ''10.0.0.1'' ''/home/x'' ''t'' True ?w2) = Inr (Some 3)"
    by (simp add: model_defs fixture_defs)
  then have b3: "createConnectionBySavedConfig devEnv ''10.0.0.1'' ''/home/x'' ''t'' True ?w2 = (Inr (Some 3), ?w3)"
    by (simp add: prod_eq_iff)
  from reconnect_prefers_live_connection[OF refl, where e = devEnv and h = "''dev''"
      and dir = "''/home/x''" and w = idleWorld and title = "''t''" and prompt = True
      and ?w1.0 = ?w1 and ?w2.0 = ?w2 and ?w3.0 = ?w3 and address = "''10.0.0.1''" and r = "Some 3"]
    n(1) b1 b2 b3
  have 2: "reconnect devEnv ''dev'' ''/home/x'' ''t'' True idleWorld = (Inr (Some 3), ?w3)"
    by blast
  let ?v1 = "snd (createConnectionBySavedConfig devEnv ''other'' ''/home/x'' ''t'' True ?w0)"
  have "fst (createConnectionBySavedConfig devEnv ''other'' ''/home/x'' ''t'' True ?w0) = Inr None"
    by (simp add: createConnectionBySavedConfig_def call_def devEnv_def)
  then have d1: "createConnectionBySavedConfig devEnv ''other'' ''/home/x'' ''t'' True ?w0 = (Inr None, ?v1)"
    by (simp add: prod_eq_iff)
  let ?v2 = "snd (call (LookupPreferIpv6 ''other'') (lookupPreferIpv6 devEnv ''other'') ?v1)"
  have "fst (call (LookupPreferIpv6 ''other'') (lookupPreferIpv6 devEnv ''other'') ?v1) = Inl typeError"
    by (simp add: call_def devEnv_def split: prod.splits)
  then have d2: "call (LookupPreferIpv6 ''other'') (lookupPreferIpv6 devEnv ''other'') ?v1 = (Inl typeError, ?v2)"
    by (simp add: prod_eq_iff)
  from reconnect_prefers_live_connection[OF refl, where e = devEnv and h = "''other''"
      and dir = "''/home/x''" and w = idleWorld and title = "''t''" and prompt = True
      and ?w1.0 = ?v1 and ?w2.0 = ?v2 and err = typeError]
    n(2) d1 d2
  have 3: "reconnect devEnv ''other'' ''/home/x'' ''t'' True idleWorld = (Inr None, ?v2)"
    "\<exists>rest. journal (snd (reconnect devEnv ''other'' ''/home/x'' ''t'' True idleWorld)) =
         journal idleWorld @ ?l # GetConnectionConfig ''other'' # rest"
    by blast+
  from 1 2 3 p show ?thesis by (simp add: idleWorld_def)
qed

text \<open>
  Claim C9. \<open>parseProject\<close> applies the primary parser (\<open>toml.parse\<close>) first. When it
  fails with a \<open>SyntaxError\<close>, the secondary parser (\<open>season.parse\<close>) is applied to the same
  content and its outcome is the result; in every other case the secondary parser is not
  applied and the outcome of the primary parser is the result. A failure of the primary
  parser that is no syntax error reaches the caller of \<open>findOrCreate\<close> unchanged.
\<close>

theorem parseProject_fallback:
  "(toml_parse e raw = Inl err \<and> name err = ''SyntaxError'' \<longrightarrow>
      parseProject e raw w3 =
        (season_parse e raw, w3\<lparr>journal := journal w3 @ [TomlParse raw, SeasonParse raw]\<rparr>))
   \<and> (\<not> (\<exists>x. toml_parse e raw = Inl x \<and> name x = ''SyntaxError'') \<longrightarrow>
      parseProject e raw w3 = (toml_parse e raw, w3\<lparr>journal := journal w3 @ [TomlParse raw]\<rparr>))
   \<and> (call (GetOrCreate config) (getOrCreate e config) w = (Inr s, w1) \<and>
      call (ResolveRealPath s (cwd config)) (resolveRealPath e s (cwd config)) w1 = (Inr realPath, w2) \<and>
      readContents e s realPath w2 = (Some raw, w3) \<and>
      toml_parse e raw = Inl err \<and> name err \<noteq> ''SyntaxError'' \<longrightarrow>
      fst (findOrCreate e config w) = Inl err
      \<and> SeasonParse raw \<notin> set (drop (length (journal w3)) (journal (snd (findOrCreate e config w)))))"
proof (intro conjI impI)
  assume "toml_parse e raw = Inl err \<and> name err = ''SyntaxError''"
  then show "parseProject e raw w3 =
      (season_parse e raw, w3\<lparr>journal := journal w3 @ [TomlParse raw, SeasonParse raw]\<rparr>)"
    by (simp add: parseProject_def perform_def)
next
  assume "\<not> (\<exists>x. toml_parse e raw = Inl x \<and> name x = ''SyntaxError'')"
  then show "parseProject e raw w3 = (toml_parse e raw, w3\<lparr>journal := journal w3 @ [TomlParse raw]\<rparr>)"
    by (cases "toml_parse e raw") (simp_all add: parseProject_def perform_def)
next
  assume h: "call (GetOrCreate config) (getOrCreate e config) w = (Inr s, w1) \<and>
      call (ResolveRealPath s (cwd config)) (resolveRealPath e s (cwd config)) w1 = (Inr realPath, w2) \<and>
      readContents e s realPath w2 = (Some raw, w3) \<and>
      toml_parse e raw = Inl err \<and> name err \<noteq> ''SyntaxError''"
  then have p: "parseProject e raw w3 = (Inl err, perform (TomlParse raw) w3)"
    by (simp add: parseProject_def)
  from h have t: "tryBlock e config s w1 = (Inl err, perform (TomlParse raw) w3)"
    using tryBlock_parse_fails[OF _ _ p] by blast
  from h have f: "findOrCreate e config w = (Inl err, catchBlock e s (perform (TomlParse raw) w3))"
    using findOrCreate_try_fails[OF _ t] by blast
  show "fst (findOrCreate e config w) = Inl err"
    by (simp add: f)
  show "SeasonParse raw \<notin> set (drop (length (journal w3)) (journal (snd (findOrCreate e config w))))"
    by (simp add: f catchBlock_def perform_def)
qed

text \<open>
  On the development host: a content the primary parser rejects with a \<open>SyntaxError\<close> is
  parsed by the secondary one; a content the primary parser accepts never reaches the
  secondary one; the \<open>TypeError\<close> the primary parser raises on \<open>/proj/bad.json\<close> is what
  \<open>findOrCreate\<close> raises.
\<close>

theorem parseProject_fallback_witness:
  "parseProject devEnv ''paths: [a]'' idleWorld =
     (Inr \<lparr>paths = PathsArray [''a''], originPath = None\<rparr>,
      idleWorld\<lparr>journal := [TomlParse ''paths: [a]'', SeasonParse ''paths: [a]'']\<rparr>)
   \<and> parseProject devEnv ''paths = [a, b]'' idleWorld =
     (Inr \<lparr>paths = PathsArray [''a'', ''b''], originPath = None\<rparr>,
      idleWorld\<lparr>journal := [TomlParse ''paths = [a, b]'']\<rparr>)
   \<and> fst (findOrCreate devEnv (devConfig ''/proj/bad.json'') idleWorld) = Inl typeError"
proof -
  have s1: "toml_parse devEnv ''paths: [a]'' = Inl syntaxError \<and> name syntaxError = ''SyntaxError''"
    by (simp add: devEnv_def syntaxError_def)
  have s2: "season_parse devEnv ''paths: [a]'' = Inr \<lparr>paths = PathsArray [''a''], originPath = None\<rparr>"
    by (simp add: devEnv_def)
  from parseProject_fallback[where e = devEnv and raw = "''paths: [a]''" and err = syntaxError
      and ?w3.0 = idleWorld] s1 s2
  have 1: "parseProject devEnv ''paths: [a]'' idleWorld =
     (Inr \<lparr>paths = PathsArray [''a''], originPath = None\<rparr>,
      idleWorld\<lparr>journal := [TomlParse ''paths: [a]'', SeasonParse ''paths: [a]'']\<rparr>)"
    by (simp add: idleWorld_def)
  have t1: "toml_parse devEnv ''paths = [a, b]'' = Inr \<lparr>paths = PathsArray [''a'', ''b''], originPath = None\<rparr>"
    by (simp add: devEnv_def)
  then have n1: "\<not> (\<exists>x. toml_parse devEnv ''paths = [a, b]'' = Inl x \<and> name x = ''SyntaxError'')"
    by simp
  from parseProject_fallback[where e = devEnv and raw = "''paths = [a, b]''" and ?w3.0 = idleWorld] n1 t1
  have 2: "parseProject devEnv ''paths = [a, b]'' idleWorld =
     (Inr \<lparr>paths = PathsArray [''a'', ''b''], originPath = None\<rparr>,
      idleWorld\<lparr>journal := [TomlParse ''paths = [a, b]'']\<rparr>)"
    by (simp add: idleWorld_def)
  let ?c = "devConfig ''/proj/bad.json''"
  let ?w1 = "idleWorld\<lparr>journal := [GetOrCreate ?c]\<rparr>"
  let ?w2 = "idleWorld\<lparr>journal := [GetOrCreate ?c, ResolveRealPath 0 ''/proj/bad.json'']\<rparr>"
  let ?w3 = "idleWorld\<lparr>journal := [GetOrCreate ?c, ResolveRealPath 0 ''/proj/bad.json'',
                                     ReadFile 0 ''/proj/bad.json'']\<rparr>"
  have a: "call (GetOrCreate ?c) (getOrCreate devEnv ?c) idleWorld = (Inr 0, ?w1)"
    by (simp add: call_def devEnv_def idleWorld_def devConfig_def)
  have b: "call (ResolveRealPath 0 (cwd ?c)) (resolveRealPath devEnv 0 (cwd ?c)) ?w1 = (Inr ''/proj/bad.json'', ?w2)"
    by (simp add: call_def devEnv_def idleWorld_def devConfig_def)
  have c: "readContents devEnv 0 ''/proj/bad.json'' ?w2 = (Some ''bad'', ?w3)"
    by (simp add: readContents_def hasAtomProjectFormat_def call_def devEnv_def idleWorld_def)
  have d: "toml_parse devEnv ''bad'' = Inl typeError \<and> name typeError \<noteq> ''SyntaxError''"
    by (simp add: devEnv_def typeError_def)
  from parseProject_fallback[where e = devEnv and raw = "''bad''" and err = typeError
      and config = ?c and w = idleWorld and s = 0 and ?w1.0 = ?w1 and ?w2.0 = ?w2
      and realPath = "''/proj/bad.json''" and ?w3.0 = ?w3] a b c d
  have 3: "fst (findOrCreate devEnv ?c idleWorld) = Inl typeError"
    by blast
  from 1 2 3 show ?thesis by blast
qed

end
